theory Spec2Isabelle
  imports
    Main
    "HOL-Library.AList"
    "HOL-Library.Sublist"
    "HOL-Library.Char_ord"
    "HOL-Library.List_Lexorder"
    "HOL-Library.Multiset"
begin

section \<open>Python values and the operations the signing code applies to them\<close>

text \<open>
  The module \<^verbatim>\<open>examples/common/python/utility/signature.py\<close> works on the values
  that \<^verbatim>\<open>json.loads\<close> returns. A Python \<^verbatim>\<open>str\<close> is represented by the bytes of
  its UTF-8 encoding, where a lone surrogate, which \<^verbatim>\<open>json.loads\<close> accepts, is written
  as the three bytes the encoding scheme would give it (\<open>ED\<close>, then \<open>A0\<close> to \<open>BF\<close>, then
  a continuation byte). So \<^verbatim>\<open>s.encode('UTF-8')\<close> and \<^verbatim>\<open>bytes(s, 'UTF-8')\<close> raise
  \<^verbatim>\<open>UnicodeEncodeError\<close> on a representation that holds a surrogate and are the identity
  on every other one; \<^verbatim>\<open>bytes\<close> values are lists of \<^typ>\<open>char\<close> as well.
  A \<^verbatim>\<open>dict\<close> is an association list in insertion order, read with \<^const>\<open>map_of\<close>
  and written with \<^const>\<open>AList.update\<close> (an existing key keeps its place, a new key
  goes to the end). JSON numbers are the integers; floating point numbers are not
  represented.
\<close>

type_synonym bytes = string

datatype json =
    JNull
  | JBool bool
  | JInt int
  | JStr string
  | JList "json list"
  | JObj "(string \<times> json) list"

datatype py_error =
  KeyError string | TypeError | AttributeError | ValueError | UnicodeEncodeError | JSONDecodeError

text \<open>
  A \<^verbatim>\<open>str\<close> that the code hands to \<^verbatim>\<open>json.loads\<close> is represented by what
  \<^verbatim>\<open>json.loads\<close> makes of it: the value it returns, or the fact that it raises
  \<^verbatim>\<open>JSONDecodeError\<close>. The code does nothing else with such a string.
\<close>

datatype json_text = Parses json | NotJson

fun json_loads :: "json_text \<Rightarrow> py_error + json" where
  "json_loads (Parses v) = Inr v"
| "json_loads NotJson = Inl JSONDecodeError"

definition ebind :: "py_error + 'a \<Rightarrow> ('a \<Rightarrow> py_error + 'b) \<Rightarrow> py_error + 'b" where
  "ebind m f = (case m of Inl e \<Rightarrow> Inl e | Inr x \<Rightarrow> f x)"

text \<open>\<^verbatim>\<open>k in v\<close> for a string \<open>k\<close>: key membership in a dict, element membership in a
  list, substring test in a string, \<^verbatim>\<open>TypeError\<close> otherwise.\<close>

fun py_contains :: "string \<Rightarrow> json \<Rightarrow> py_error + bool" where
  "py_contains k (JObj kvs) = Inr (k \<in> set (map fst kvs))"
| "py_contains k (JList xs) = Inr (JStr k \<in> set xs)"
| "py_contains k (JStr s) = Inr (sublist k s)"
| "py_contains k JNull = Inl TypeError"
| "py_contains k (JBool b) = Inl TypeError"
| "py_contains k (JInt i) = Inl TypeError"

text \<open>\<^verbatim>\<open>v[k]\<close> for a string \<open>k\<close>: only a dict can be indexed by a string.\<close>

fun py_getitem :: "json \<Rightarrow> string \<Rightarrow> py_error + json" where
  "py_getitem (JObj kvs) k = (case map_of kvs k of None \<Rightarrow> Inl (KeyError k) | Some v \<Rightarrow> Inr v)"
| "py_getitem JNull k = Inl TypeError"
| "py_getitem (JBool b) k = Inl TypeError"
| "py_getitem (JInt i) k = Inl TypeError"
| "py_getitem (JStr s) k = Inl TypeError"
| "py_getitem (JList xs) k = Inl TypeError"

text \<open>\<^verbatim>\<open>v[k] = x\<close> for a string \<open>k\<close>.\<close>

fun py_setitem :: "json \<Rightarrow> string \<Rightarrow> json \<Rightarrow> py_error + json" where
  "py_setitem (JObj kvs) k x = Inr (JObj (AList.update k x kvs))"
| "py_setitem JNull k x = Inl TypeError"
| "py_setitem (JBool b) k x = Inl TypeError"
| "py_setitem (JInt i) k x = Inl TypeError"
| "py_setitem (JStr s) k x = Inl TypeError"
| "py_setitem (JList xs) k x = Inl TypeError"

text \<open>Truth value of \<^verbatim>\<open>not v\<close> negated.\<close>

fun py_truthy :: "json \<Rightarrow> bool" where
  "py_truthy JNull = False"
| "py_truthy (JBool b) = b"
| "py_truthy (JInt i) = (i \<noteq> 0)"
| "py_truthy (JStr s) = (s \<noteq> [])"
| "py_truthy (JList xs) = (xs \<noteq> [])"
| "py_truthy (JObj kvs) = (kvs \<noteq> [])"

text \<open>A surrogate in the representation of a \<^verbatim>\<open>str\<close>: the byte \<open>ED\<close> (237), which is
  never a continuation byte, followed by a byte from \<open>A0\<close> (160) on.\<close>

fun has_surrogate :: "string \<Rightarrow> bool" where
  "has_surrogate (a # b # rest) \<longleftrightarrow>
     (of_char a = (237 :: nat) \<and> (160 :: nat) \<le> of_char b) \<or> has_surrogate (b # rest)"
| "has_surrogate [a] \<longleftrightarrow> False"
| "has_surrogate [] \<longleftrightarrow> False"

text \<open>\<^verbatim>\<open>v.encode('UTF-8')\<close>: only \<^verbatim>\<open>str\<close> has the method, and a surrogate cannot be
  encoded. \<^verbatim>\<open>bytes(s, 'UTF-8')\<close> for a \<^verbatim>\<open>str\<close> \<open>s\<close> is \<open>py_encode (JStr s)\<close>.\<close>

fun py_encode :: "json \<Rightarrow> py_error + bytes" where
  "py_encode (JStr s) = (if has_surrogate s then Inl UnicodeEncodeError else Inr s)"
| "py_encode JNull = Inl AttributeError"
| "py_encode (JBool b) = Inl AttributeError"
| "py_encode (JInt i) = Inl AttributeError"
| "py_encode (JList xs) = Inl AttributeError"
| "py_encode (JObj kvs) = Inl AttributeError"

text \<open>\<^verbatim>\<open>obj[k].encode('UTF-8')\<close>, and the pattern
  \<^verbatim>\<open>x = "".encode('UTF-8'); if k in obj: x = obj[k].encode('UTF-8')\<close>.\<close>

definition get_encoded :: "json \<Rightarrow> string \<Rightarrow> py_error + bytes" where
  "get_encoded obj k = ebind (py_getitem obj k) py_encode"

definition get_encoded_if_present :: "json \<Rightarrow> string \<Rightarrow> py_error + bytes" where
  "get_encoded_if_present obj k =
     ebind (py_contains k obj) (\<lambda>present. if present then get_encoded obj k else Inr [])"

text \<open>The characters of a \<^verbatim>\<open>str\<close>: a byte from 128 to 191 continues the character
  that the byte before it belongs to.\<close>

definition is_continuation :: "char \<Rightarrow> bool" where
  "is_continuation c \<longleftrightarrow> (128 :: nat) \<le> of_char c \<and> of_char c < (192 :: nat)"

fun utf8_chars :: "string \<Rightarrow> string list" where
  "utf8_chars [] = []"
| "utf8_chars (c # cs) =
     (case utf8_chars cs of
        (d # g) # gs \<Rightarrow> if is_continuation d then (c # d # g) # gs else [c] # (d # g) # gs
      | gs \<Rightarrow> [c] # gs)"

text \<open>\<^verbatim>\<open>for obj in v\<close>: the elements of a list, the keys of a dict, the characters of
  a string, each a string of its own.\<close>

fun py_iter :: "json \<Rightarrow> py_error + json list" where
  "py_iter (JList xs) = Inr xs"
| "py_iter (JObj kvs) = Inr (map (\<lambda>kv. JStr (fst kv)) kvs)"
| "py_iter (JStr s) = Inr (map JStr (utf8_chars s))"
| "py_iter JNull = Inl TypeError"
| "py_iter (JBool b) = Inl TypeError"
| "py_iter (JInt i) = Inl TypeError"

text \<open>\<^verbatim>\<open>v.keys()\<close>: only a dict has the method.\<close>

fun py_keys :: "json \<Rightarrow> py_error + string list" where
  "py_keys (JObj kvs) = Inr (map fst kvs)"
| "py_keys JNull = Inl AttributeError"
| "py_keys (JBool b) = Inl AttributeError"
| "py_keys (JInt i) = Inl AttributeError"
| "py_keys (JStr s) = Inl AttributeError"
| "py_keys (JList xs) = Inl AttributeError"

text \<open>\<^verbatim>\<open>v < 0\<close>: \<^verbatim>\<open>bool\<close> is a subclass of \<^verbatim>\<open>int\<close>; every other type is unorderable
  against an integer.\<close>

fun py_lt_zero :: "json \<Rightarrow> py_error + bool" where
  "py_lt_zero (JInt i) = Inr (i < 0)"
| "py_lt_zero (JBool b) = Inr False"
| "py_lt_zero JNull = Inl TypeError"
| "py_lt_zero (JStr s) = Inl TypeError"
| "py_lt_zero (JList xs) = Inl TypeError"
| "py_lt_zero (JObj kvs) = Inl TypeError"

subsection \<open>\<^verbatim>\<open>items.sort(key=lambda x: x['index'])\<close>\<close>

text \<open>
  \<^verbatim>\<open>list.sort\<close> first evaluates the key function on every element, in order (so the
  first element without an \<^verbatim>\<open>index\<close> decides the exception), and then sorts stably by
  comparing keys. With fewer than two elements nothing is compared. Integer (and
  boolean) keys compare numerically, string keys lexicographically; \<^verbatim>\<open>None\<close>, dicts
  and keys of mixed types are unorderable and the sort raises \<^verbatim>\<open>TypeError\<close>. Keys that
  are lists fall under the last case here as well, although Python can order some
  of them.
\<close>

fun map_err :: "('a \<Rightarrow> py_error + 'b) \<Rightarrow> 'a list \<Rightarrow> py_error + 'b list" where
  "map_err f [] = Inr []"
| "map_err f (x # xs) = ebind (f x) (\<lambda>y. ebind (map_err f xs) (\<lambda>ys. Inr (y # ys)))"

fun is_int_key :: "json \<Rightarrow> bool" where
  "is_int_key (JInt i) = True"
| "is_int_key (JBool b) = True"
| "is_int_key _ = False"

fun is_str_key :: "json \<Rightarrow> bool" where
  "is_str_key (JStr s) = True"
| "is_str_key _ = False"

fun int_of_key :: "json \<Rightarrow> int" where
  "int_of_key (JInt i) = i"
| "int_of_key (JBool b) = (if b then 1 else 0)"
| "int_of_key _ = 0"

fun str_of_key :: "json \<Rightarrow> string" where
  "str_of_key (JStr s) = s"
| "str_of_key _ = []"

definition index_key :: "json \<Rightarrow> json" where
  "index_key x = (case py_getitem x ''index'' of Inr k \<Rightarrow> k | Inl e \<Rightarrow> JNull)"

definition py_sort_by_index :: "json \<Rightarrow> py_error + json list" where
  "py_sort_by_index v =
     (case v of
        JList xs \<Rightarrow>
          ebind (map_err (\<lambda>x. py_getitem x ''index'') xs) (\<lambda>keys.
            if length xs < 2 then Inr xs
            else if list_all is_int_key keys then Inr (sort_key (\<lambda>x. int_of_key (index_key x)) xs)
            else if list_all is_str_key keys then Inr (sort_key (\<lambda>x. str_of_key (index_key x)) xs)
            else Inl TypeError)
      | _ \<Rightarrow> Inl AttributeError)"

section \<open>Logging and exceptions\<close>

text \<open>
  A computation yields the records it handed to the module's \<^verbatim>\<open>logger\<close>, in order,
  and either the exception that ended it or its value. A record keeps the level, the
  format string and the arguments.
\<close>

datatype log_level = ERROR | INFO | DEBUG

datatype log_arg = AStr string | AJson json | AExc

type_synonym log_record = "log_level \<times> string \<times> log_arg list"

type_synonym 'a run = "log_record list \<times> (py_error + 'a)"

definition ret :: "'a \<Rightarrow> 'a run" where
  "ret x = ([], Inr x)"

definition lift :: "py_error + 'a \<Rightarrow> 'a run" where
  "lift m = ([], m)"

definition logger :: "log_level \<Rightarrow> string \<Rightarrow> log_arg list \<Rightarrow> unit run" where
  "logger lv msg args = ([(lv, msg, args)], Inr ())"

definition bnd :: "'a run \<Rightarrow> ('a \<Rightarrow> 'b run) \<Rightarrow> 'b run" where
  "bnd m f =
     (case m of
        (l, Inl e) \<Rightarrow> (l, Inl e)
      | (l, Inr x) \<Rightarrow> (case f x of (l', r) \<Rightarrow> (l @ l', r)))"

section \<open>The collaborators of the module\<close>

text \<open>
  The modules \<^verbatim>\<open>crypto.crypto\<close>, \<^verbatim>\<open>utility.utility\<close>, \<^verbatim>\<open>worker.worker_details\<close> and
  \<^verbatim>\<open>error_code.error_status\<close> are imported by \<^verbatim>\<open>signature.py\<close>. Their functions are
  parameters of the development: a record of the primitives the code calls.
  \<^verbatim>\<open>random_bit_string\<close> stands for the draw made in the call at hand.
  \<^verbatim>\<open>SIG_PublicKey\<close> yields \<open>None\<close> where the constructor raises, and
  \<^verbatim>\<open>base64_to_byte_array\<close> yields \<open>None\<close> where the decoder raises.
\<close>

record ('sk, 'vk) crypto =
  compute_message_hash :: "bytes \<Rightarrow> bytes"
  byte_array_to_base64 :: "bytes \<Rightarrow> String.literal"
  base64_to_byte_array :: "string \<Rightarrow> bytes option"
  random_bit_string :: "nat \<Rightarrow> bytes"
  encrypt_data :: "bytes \<Rightarrow> bytes option \<Rightarrow> bytes option \<Rightarrow> bytes"
  GetPublicKey_Serialize :: "'sk \<Rightarrow> string"
  SignMessage :: "'sk \<Rightarrow> bytes \<Rightarrow> bytes"
  SIG_PublicKey :: "string \<Rightarrow> 'vk option"
  VerifySignature :: "'vk \<Rightarrow> bytes \<Rightarrow> bytes \<Rightarrow> int"

record worker_details =
  hashing_algorithm :: string
  signing_algorithm :: string
  worker_encryption_key :: string
  worker_typedata_verification_key :: string

text \<open>
  \<^verbatim>\<open>crypto.byte_array_to_base64\<close> returns Base64 text, a \<^verbatim>\<open>str\<close> of ASCII characters: the
  provider returns a \<^typ>\<open>String.literal\<close>, the type of the strings of 7-bit characters,
  and \<open>base64_text\<close> is that text as the \<^verbatim>\<open>str\<close> the code receives.
\<close>

abbreviation base64_text :: "('sk, 'vk) crypto \<Rightarrow> bytes \<Rightarrow> string" where
  "base64_text cp b \<equiv> String.explode (byte_array_to_base64 cp b)"

definition ascii_text :: "string \<Rightarrow> bool" where
  "ascii_text s = list_all (\<lambda>c. of_char c < (128 :: nat)) s"

text \<open>The two entries of the \<^verbatim>\<open>WorkerConfig\<close> table of \<^verbatim>\<open>tcs_config.toml\<close> that the
  code reads.\<close>

record tcs_worker_config =
  HashingAlgorithm :: string
  SigningAlgorithm :: string

datatype SignatureStatus =
  ERROR_RESPONSE | INVALID_VERIFICATION_KEY | PASSED | FAILED | INVALID_SIGNATURE_FORMAT

section \<open>Class \<^verbatim>\<open>ClientSignature\<close>\<close>

text \<open>The attributes of an instance. \<^verbatim>\<open>param_pool\<close> is assigned in \<^verbatim>\<open>__init__\<close> only.\<close>

record 'sk ClientSignature =
  private_key :: "'sk option"
  public_key :: "string option"
  tcs_worker :: tcs_worker_config

definition param_pool :: "string list" where
  "param_pool = [''requesterNonce'', ''workOrderId'', ''workerId'', ''requesterId'', ''inData'']"

definition NO_OF_BYTES :: nat where
  "NO_OF_BYTES = 16"

subsection \<open>\<^verbatim>\<open>__payload_json_check\<close>\<close>

fun check_param_pool :: "string list \<Rightarrow> json \<Rightarrow> bool \<Rightarrow> bool run" where
  "check_param_pool [] data_params param_valid = ret param_valid"
| "check_param_pool (param # rest) data_params param_valid =
     bnd (lift (py_contains param data_params)) (\<lambda>present.
       if \<not> present then
         bnd (logger ERROR
                ''ERROR: Worker Order Submit Json does not have the required parameter: %s''
                [AStr param])
           (\<lambda>u. check_param_pool rest data_params False)
       else check_param_pool rest data_params param_valid)"

text \<open>The condition \<^verbatim>\<open>'data' not in obj or not obj["data"] or 'index' not in obj\<close>,
  evaluated left to right.\<close>

definition indata_defect :: "json \<Rightarrow> py_error + bool" where
  "indata_defect obj =
     ebind (py_contains ''data'' obj) (\<lambda>has_data.
       if \<not> has_data then Inr True
       else ebind (py_getitem obj ''data'') (\<lambda>d.
         if \<not> py_truthy d then Inr True
         else ebind (py_contains ''index'' obj) (\<lambda>has_index. Inr (\<not> has_index))))"

fun check_indata :: "json list \<Rightarrow> bool \<Rightarrow> bool run" where
  "check_indata [] param_valid = ret param_valid"
| "check_indata (obj # rest) param_valid =
     bnd (lift (indata_defect obj)) (\<lambda>defect.
       if defect then
         bnd (logger ERROR
                ''ERROR: Worker Order Submit Json does not have the required parameter in InData''
                [])
           (\<lambda>u. check_indata rest False)
       else check_indata rest param_valid)"

definition payload_json_check :: "json_text \<Rightarrow> bool run" where
  "payload_json_check json_data =
     bnd (lift (json_loads json_data)) (\<lambda>data.
     bnd (lift (py_contains ''params'' data)) (\<lambda>has_params.
       if \<not> has_params then
         bnd (logger ERROR ''ERROR: Worker Order Submit Json does not have the required params'' [])
           (\<lambda>u. ret False)
       else
         bnd (lift (py_getitem data ''params'')) (\<lambda>data_params.
         bnd (check_param_pool param_pool data_params True) (\<lambda>param_valid.
           if param_valid then
             bnd (lift (py_getitem data_params ''inData'')) (\<lambda>i_obj.
             bnd (lift (py_iter i_obj)) (\<lambda>objs.
               check_indata objs param_valid))
           else ret param_valid))))"

subsection \<open>\<^verbatim>\<open>__encrypt_workorder_indata\<close>\<close>

text \<open>
  The loop body for one item. The source writes through
  \<^verbatim>\<open>input_json_params['inData'][i]['data']\<close>, which is the item at hand: the list was
  stored under \<^verbatim>\<open>inData\<close> just before the loop and \<open>i\<close> counts the iterations.
\<close>

definition encrypt_item ::
  "('sk, 'vk) crypto \<Rightarrow> bytes \<Rightarrow> bytes \<Rightarrow> bytes option \<Rightarrow> bytes option \<Rightarrow> json \<Rightarrow> json run" where
  "encrypt_item cp session_key session_iv data_key data_iv item =
     bnd (lift (get_encoded item ''data'')) (\<lambda>data.
     bnd (lift (get_encoded item ''encryptedDataEncryptionKey'')) (\<lambda>e_key.
       if e_key = [] \<or> e_key = ''null'' then
         (let enc_data = encrypt_data cp data (Some session_key) (Some session_iv) in
          bnd (lift (py_setitem item ''data'' (JStr (base64_text cp enc_data)))) (\<lambda>item'.
          bnd (logger DEBUG ''encrypted indata - %s'' [AStr (base64_text cp enc_data)])
            (\<lambda>u. ret item')))
       else if e_key = ''-'' then
         lift (py_setitem item ''data'' (JStr (base64_text cp data)))
       else
         (let enc_data = encrypt_data cp data data_key data_iv in
          bnd (lift (py_setitem item ''data'' (JStr (base64_text cp enc_data)))) (\<lambda>item'.
          bnd (logger DEBUG ''encrypted indata - %s'' [AStr (base64_text cp enc_data)])
            (\<lambda>u. ret item')))))"

fun encrypt_items ::
  "('sk, 'vk) crypto \<Rightarrow> bytes \<Rightarrow> bytes \<Rightarrow> bytes option \<Rightarrow> bytes option \<Rightarrow> json list
     \<Rightarrow> json list run" where
  "encrypt_items cp session_key session_iv data_key data_iv [] = ret []"
| "encrypt_items cp session_key session_iv data_key data_iv (item # rest) =
     bnd (encrypt_item cp session_key session_iv data_key data_iv item) (\<lambda>item'.
     bnd (encrypt_items cp session_key session_iv data_key data_iv rest) (\<lambda>rest'.
       ret (item' # rest')))"

text \<open>The method mutates \<^verbatim>\<open>input_json_params\<close> in place and returns nothing; here it
  returns the dict as it is after the call.\<close>

definition encrypt_workorder_indata ::
  "('sk, 'vk) crypto \<Rightarrow> json \<Rightarrow> bytes \<Rightarrow> bytes \<Rightarrow> string \<Rightarrow> bytes option \<Rightarrow> bytes option
     \<Rightarrow> json run" where
  "encrypt_workorder_indata cp input_json_params session_key session_iv worker_key
       data_key data_iv =
     bnd (lift (py_getitem input_json_params ''inData'')) (\<lambda>indata_objects.
     bnd (lift (py_sort_by_index indata_objects)) (\<lambda>sorted_objects.
     bnd (lift (py_setitem input_json_params ''inData'' (JList sorted_objects))) (\<lambda>params1.
     bnd (logger INFO ''Encrypting Workorder Data'' []) (\<lambda>u.
     bnd (encrypt_items cp session_key session_iv data_key data_iv sorted_objects) (\<lambda>encrypted.
     bnd (logger DEBUG ''Workorder InData after encryption: %s'' [AJson (JList encrypted)]) (\<lambda>u'.
       lift (py_setitem params1 ''inData'' (JList encrypted))))))))"

subsection \<open>\<^verbatim>\<open>__calculate_hash_on_concatenated_string\<close>\<close>

definition calculate_hash_on_concatenated_string ::
  "('sk, 'vk) crypto \<Rightarrow> json \<Rightarrow> bytes \<Rightarrow> py_error + string" where
  "calculate_hash_on_concatenated_string cp input_json_params nonce_hash =
     ebind (get_encoded input_json_params ''workOrderId'') (\<lambda>workorder_id.
     ebind (get_encoded input_json_params ''workerId'') (\<lambda>worker_id.
     ebind (get_encoded_if_present input_json_params ''workloadId'') (\<lambda>workload_id.
     ebind (get_encoded input_json_params ''requesterId'') (\<lambda>requester_id.
       (let concat_string = nonce_hash @ workorder_id @ worker_id @ workload_id @ requester_id;
            hash_1 = compute_message_hash cp concat_string
        in Inr (base64_text cp hash_1))))))"

subsection \<open>\<^verbatim>\<open>__calculate_datahash\<close>\<close>

text \<open>One iteration: the base64 text of the digest of one item.\<close>

definition item_digest :: "('sk, 'vk) crypto \<Rightarrow> json \<Rightarrow> py_error + string" where
  "item_digest cp item =
     ebind (get_encoded_if_present item ''dataHash'') (\<lambda>datahash.
     ebind (get_encoded item ''data'') (\<lambda>data.
     ebind (get_encoded item ''encryptedDataEncryptionKey'') (\<lambda>e_key.
     ebind (get_encoded item ''iv'') (\<lambda>iv.
       (let concat_string = datahash @ data @ e_key @ iv;
            hash = compute_message_hash cp concat_string
        in Inr (base64_text cp hash))))))"

fun datahash_loop :: "('sk, 'vk) crypto \<Rightarrow> json list \<Rightarrow> string \<Rightarrow> py_error + string" where
  "datahash_loop cp [] hash_str = Inr hash_str"
| "datahash_loop cp (item # rest) hash_str =
     ebind (item_digest cp item) (\<lambda>d. datahash_loop cp rest (hash_str @ d))"

definition calculate_datahash :: "('sk, 'vk) crypto \<Rightarrow> json \<Rightarrow> py_error + string" where
  "calculate_datahash cp data_objects =
     ebind (py_iter data_objects) (\<lambda>items. datahash_loop cp items [])"

subsection \<open>\<^verbatim>\<open>__generate_signature\<close>\<close>

definition generate_signature ::
  "('sk, 'vk) crypto \<Rightarrow> 'sk ClientSignature \<Rightarrow> bytes \<Rightarrow> 'sk \<Rightarrow> 'sk ClientSignature \<times> string" where
  "generate_signature cp self hash pk =
     (let self1 = self\<lparr>private_key := Some pk\<rparr>;
          self2 = self1\<lparr>public_key := Some (GetPublicKey_Serialize cp pk)\<rparr>;
          signature_result = SignMessage cp pk hash;
          signature_base64 = base64_text cp signature_result
      in (self2, signature_base64))"

subsection \<open>\<^verbatim>\<open>generate_client_signature\<close>\<close>

text \<open>\<^verbatim>\<open>''.join(format(i, '02x') for i in bs)\<close> for a byte string \<open>bs\<close>.\<close>

definition hex_digit :: "nat \<Rightarrow> char" where
  "hex_digit n = ''0123456789abcdef'' ! (n mod 16)"

definition format_02x :: "char \<Rightarrow> string" where
  "format_02x c = [hex_digit ((of_char c :: nat) div 16), hex_digit ((of_char c :: nat) mod 16)]"

definition hex_str :: "bytes \<Rightarrow> string" where
  "hex_str bs = concat (map format_02x bs)"

text \<open>The third hash string: empty unless the request has \<^verbatim>\<open>outData\<close>, which is then
  sorted in place. Yields the request and the string.\<close>

definition outdata_hash :: "('sk, 'vk) crypto \<Rightarrow> json \<Rightarrow> py_error + json \<times> string" where
  "outdata_hash cp input_json_params =
     ebind (py_contains ''outData'' input_json_params) (\<lambda>has_outdata.
       if has_outdata then
         ebind (py_getitem input_json_params ''outData'') (\<lambda>data_objects.
         ebind (py_sort_by_index data_objects) (\<lambda>sorted_objects.
         ebind (py_setitem input_json_params ''outData'' (JList sorted_objects)) (\<lambda>params'.
         ebind (calculate_datahash cp (JList sorted_objects)) (\<lambda>hash_string_3.
           Inr (params', hash_string_3)))))
       else Inr (input_json_params, []))"

text \<open>
  Lines 222 to 264, the part of the method after its three guards. The value
  returned is the one handed to \<^verbatim>\<open>json.dumps\<close>, together with the instance, whose
  \<^verbatim>\<open>private_key\<close> and \<^verbatim>\<open>public_key\<close> the signature step assigns.
\<close>

definition sign_request ::
  "('sk, 'vk) crypto \<Rightarrow> 'sk ClientSignature \<Rightarrow> json_text \<Rightarrow> worker_details \<Rightarrow> 'sk \<Rightarrow> bytes
     \<Rightarrow> bytes \<Rightarrow> bytes \<Rightarrow> bytes option \<Rightarrow> bytes option \<Rightarrow> ('sk ClientSignature \<times> json) run" where
  "sign_request cp self input_json_str worker pk session_key session_iv
       encrypted_session_key data_key data_iv =
     bnd (lift (json_loads input_json_str)) (\<lambda>input_json.
     bnd (lift (py_getitem input_json ''params'')) (\<lambda>params0.
     bnd (lift (py_setitem params0 ''sessionKeyIv'' (JStr (hex_str session_iv)))) (\<lambda>params1.
     (let encrypted_session_key_str = hex_str encrypted_session_key in
     bnd (encrypt_workorder_indata cp params1 session_key session_iv
            (worker_encryption_key worker) data_key data_iv) (\<lambda>params2.
     (let nonce = random_bit_string cp NO_OF_BYTES;
          request_nonce_hash = compute_message_hash cp nonce in
     bnd (lift (py_encode (JStr (base64_text cp request_nonce_hash)))) (\<lambda>nonce_hash.
     bnd (lift (calculate_hash_on_concatenated_string cp params2 nonce_hash)) (\<lambda>hash_string_1.
     bnd (lift (py_getitem params2 ''inData'')) (\<lambda>data_objects.
     bnd (lift (calculate_datahash cp data_objects)) (\<lambda>hash_string_2.
     bnd (lift (outdata_hash cp params2)) (\<lambda>(params3, hash_string_3).
     bnd (lift (py_encode (JStr (hash_string_1 @ hash_string_2 @ hash_string_3)))) (\<lambda>concat_hash.
     (let final_hash = compute_message_hash cp concat_hash;
          encrypted_request_hash =
            encrypt_data cp final_hash (Some session_key) (Some session_iv);
          encrypted_request_hash_str = hex_str encrypted_request_hash in
     bnd (logger DEBUG ''encrypted request hash: \<newline>%s'' [AStr encrypted_request_hash_str])
       (\<lambda>u.
     bnd (lift (py_setitem params3 ''encryptedRequestHash'' (JStr encrypted_request_hash_str)))
       (\<lambda>params4.
     (case generate_signature cp self final_hash pk of (self', signature_base64) \<Rightarrow>
     bnd (lift (py_setitem params4 ''requesterSignature'' (JStr signature_base64))) (\<lambda>params5.
     bnd (lift (py_setitem params5 ''encryptedSessionKey'' (JStr encrypted_session_key_str)))
       (\<lambda>params6.
     bnd (lift (py_setitem params6 ''verifyingKey''
            (case public_key self' of None \<Rightarrow> JNull | Some k \<Rightarrow> JStr k))) (\<lambda>params7.
     bnd (lift (py_setitem params7 ''requesterNonce''
            (JStr (base64_text cp request_nonce_hash)))) (\<lambda>params8.
     bnd (lift (py_setitem input_json ''params'' params8)) (\<lambda>signed.
     bnd (logger INFO ''Request Json successfully Signed'' []) (\<lambda>u'.
       ret (self', signed)))))))))))))))))))))))"

text \<open>The method: \<open>None\<close> stands for Python's \<^verbatim>\<open>None\<close>.\<close>

definition generate_client_signature ::
  "('sk, 'vk) crypto \<Rightarrow> 'sk ClientSignature \<Rightarrow> json_text \<Rightarrow> worker_details \<Rightarrow> 'sk \<Rightarrow> bytes
     \<Rightarrow> bytes \<Rightarrow> bytes \<Rightarrow> bytes option \<Rightarrow> bytes option
     \<Rightarrow> ('sk ClientSignature \<times> json option) run" where
  "generate_client_signature cp self input_json_str worker pk session_key session_iv
       encrypted_session_key data_key data_iv =
     bnd (payload_json_check input_json_str) (\<lambda>checked.
       if \<not> checked then
         bnd (logger ERROR ''ERROR: Signing the request failed'' []) (\<lambda>u. ret (self, None))
       else if HashingAlgorithm (tcs_worker self) \<noteq> hashing_algorithm worker then
         bnd (logger ERROR
                ''ERROR: Signing the request failed. Hashing algorithm is not supported for %s''
                [AStr (hashing_algorithm worker)])
           (\<lambda>u. ret (self, None))
       else if SigningAlgorithm (tcs_worker self) \<noteq> signing_algorithm worker then
         bnd (logger ERROR
                ''ERROR: Signing the request failed. Signing algorithm is not supported for %s''
                [AStr (signing_algorithm worker)])
           (\<lambda>u. ret (self, None))
       else
         bnd (sign_request cp self input_json_str worker pk session_key session_iv
                encrypted_session_key data_key data_iv)
           (\<lambda>(self', signed). ret (self', Some signed)))"

subsection \<open>\<^verbatim>\<open>verify_signature\<close>\<close>

definition decode_signature :: "('sk, 'vk) crypto \<Rightarrow> json \<Rightarrow> py_error + bytes" where
  "decode_signature cp signature =
     (case signature of
        JStr s \<Rightarrow> (case base64_to_byte_array cp s of None \<Rightarrow> Inl ValueError | Some b \<Rightarrow> Inr b)
      | _ \<Rightarrow> Inl TypeError)"

definition signature_outcome :: "int \<Rightarrow> SignatureStatus" where
  "signature_outcome sig_result =
     (if sig_result = 1 then PASSED
      else if sig_result = 0 then FAILED
      else INVALID_SIGNATURE_FORMAT)"

text \<open>Lines 295 to 304: the digest of a response whose error checks have passed.\<close>

definition response_final_hash ::
  "('sk, 'vk) crypto \<Rightarrow> json \<Rightarrow> py_error + json \<times> bytes" where
  "response_final_hash cp input_json_params =
     ebind (get_encoded input_json_params ''workerNonce'') (\<lambda>nonce.
     ebind (py_getitem input_json_params ''workerSignature'') (\<lambda>signature.
     ebind (calculate_hash_on_concatenated_string cp input_json_params nonce) (\<lambda>hash_string_1.
     ebind (py_getitem input_json_params ''outData'') (\<lambda>data_objects.
     ebind (py_sort_by_index data_objects) (\<lambda>sorted_objects.
     ebind (calculate_datahash cp (JList sorted_objects)) (\<lambda>hash_string_2.
     ebind (py_encode (JStr (hash_string_1 @ hash_string_2))) (\<lambda>concat_hash.
       (let final_hash = compute_message_hash cp concat_hash
        in Inr (signature, final_hash)))))))))"

definition verify_signature ::
  "('sk, 'vk) crypto \<Rightarrow> 'sk ClientSignature \<Rightarrow> json_text \<Rightarrow> worker_details
     \<Rightarrow> SignatureStatus run" where
  "verify_signature cp self response_str worker =
     bnd (lift (json_loads response_str)) (\<lambda>input_json.
     (if HashingAlgorithm (tcs_worker self) \<noteq> hashing_algorithm worker then
        bnd (logger ERROR
               ''ERROR: Signing the request failed. Hashing algorithm is not supported for %s''
               [AStr (hashing_algorithm worker)])
          (\<lambda>u. ret ERROR_RESPONSE)
      else if SigningAlgorithm (tcs_worker self) \<noteq> signing_algorithm worker then
        bnd (logger ERROR
               ''ERROR: Signing the request failed. Signing algorithm is not supported for %s''
               [AStr (signing_algorithm worker)])
          (\<lambda>u. ret ERROR_RESPONSE)
      else
        bnd (lift (py_keys input_json)) (\<lambda>keys.
          if ''error'' \<in> set keys then ret ERROR_RESPONSE
          else
            bnd (lift (py_getitem input_json ''result'')) (\<lambda>input_json_params.
            bnd (lift (py_keys input_json_params)) (\<lambda>result_keys.
            bnd (lift (if ''code'' \<in> set result_keys
                       then ebind (py_getitem input_json_params ''code'') py_lt_zero
                       else Inr False)) (\<lambda>negative_code.
              if negative_code then ret ERROR_RESPONSE
              else
                bnd (lift (response_final_hash cp input_json_params)) (\<lambda>(signature, final_hash).
                  (case SIG_PublicKey cp (worker_typedata_verification_key worker) of
                     None \<Rightarrow>
                       bnd (logger INFO ''Error in verification key : %s'' [AExc])
                         (\<lambda>u. ret INVALID_VERIFICATION_KEY)
                   | Some verifying_key \<Rightarrow>
                       bnd (lift (decode_signature cp signature)) (\<lambda>decoded_signature.
                         ret (signature_outcome
                                (VerifySignature cp verifying_key final_hash decoded_signature)))))))))))"

section \<open>The digests as the specification words them\<close>

text \<open>
  The bytes of a string-valued field, empty when the field is absent, and the items of
  a list-valued field, none when the field is absent.
\<close>

definition field_bytes :: "json \<Rightarrow> string \<Rightarrow> bytes" where
  "field_bytes obj k = (case py_getitem obj k of Inr (JStr s) \<Rightarrow> s | _ \<Rightarrow> [])"

definition field_items :: "json \<Rightarrow> string \<Rightarrow> json list" where
  "field_items obj k = (case py_getitem obj k of Inr (JList xs) \<Rightarrow> xs | _ \<Rightarrow> [])"

text \<open>\<open>header_hash(payload, nonce_digest)\<close>: one hash over the nonce digest,
  \<^verbatim>\<open>workOrderId\<close>, \<^verbatim>\<open>workerId\<close>, \<^verbatim>\<open>workloadId\<close> (empty if absent) and \<^verbatim>\<open>requesterId\<close>.\<close>

definition header_hash :: "('sk, 'vk) crypto \<Rightarrow> json \<Rightarrow> bytes \<Rightarrow> string" where
  "header_hash cp payload nonce_digest =
     base64_text cp (compute_message_hash cp
       (nonce_digest @ field_bytes payload ''workOrderId'' @ field_bytes payload ''workerId''
          @ field_bytes payload ''workloadId'' @ field_bytes payload ''requesterId''))"

text \<open>\<open>item_hash(items)\<close>: every item is hashed on its own, over \<^verbatim>\<open>dataHash\<close> (empty if
  absent), \<^verbatim>\<open>data\<close>, \<^verbatim>\<open>encryptedDataEncryptionKey\<close> and \<^verbatim>\<open>iv\<close>, and the base64 texts of
  the digests are concatenated in the order of the items.\<close>

definition item_sub_hash :: "('sk, 'vk) crypto \<Rightarrow> json \<Rightarrow> string" where
  "item_sub_hash cp item =
     base64_text cp (compute_message_hash cp
       (field_bytes item ''dataHash'' @ field_bytes item ''data''
          @ field_bytes item ''encryptedDataEncryptionKey'' @ field_bytes item ''iv''))"

definition item_hash :: "('sk, 'vk) crypto \<Rightarrow> json list \<Rightarrow> string" where
  "item_hash cp items = concat (map (item_sub_hash cp) items)"

text \<open>The top-level digests of a request and of a response (the \<^verbatim>\<open>result\<close> object),
  read off the payload: the nonce digest is the payload's \<^verbatim>\<open>requesterNonce\<close>, or the
  response's \<^verbatim>\<open>workerNonce\<close>.\<close>

definition request_digest :: "('sk, 'vk) crypto \<Rightarrow> json \<Rightarrow> bytes" where
  "request_digest cp params =
     compute_message_hash cp
       (header_hash cp params (field_bytes params ''requesterNonce'')
          @ item_hash cp (field_items params ''inData'')
          @ item_hash cp (field_items params ''outData''))"

definition response_digest :: "('sk, 'vk) crypto \<Rightarrow> json \<Rightarrow> json list \<Rightarrow> bytes" where
  "response_digest cp result sorted_out_data =
     compute_message_hash cp
       (header_hash cp result (field_bytes result ''workerNonce'')
          @ item_hash cp sorted_out_data)"

section \<open>A provider for worked examples\<close>

text \<open>
  A provider whose results can be followed by hand: hashing puts the bytes between
  angle brackets, base64 is the bytes with their eighth bit cleared, signing
  leaves the bytes as they are, encryption reverses them,
  the draw is the byte \<open>r\<close> repeated, the empty string is no verification key, and a
  signature verifies when it is the digest itself.
\<close>

definition plain_crypto :: "(unit, unit) crypto" where
  "plain_crypto =
     \<lparr> compute_message_hash = (\<lambda>b. ''<'' @ b @ ''>''),
       byte_array_to_base64 = String.implode,
       base64_to_byte_array = (\<lambda>s. Some s),
       random_bit_string = (\<lambda>n. replicate n CHR ''r''),
       encrypt_data = (\<lambda>d k iv. rev d),
       GetPublicKey_Serialize = (\<lambda>k. ''pub''),
       SignMessage = (\<lambda>k h. h),
       SIG_PublicKey = (\<lambda>s. if s = [] then None else Some ()),
       VerifySignature = (\<lambda>k h s. if s = h then 1 else 0) \<rparr>"

definition sha_config :: tcs_worker_config where
  "sha_config = \<lparr> HashingAlgorithm = ''SHA-256'', SigningAlgorithm = ''SECP256K1'' \<rparr>"

definition new_client :: "'sk ClientSignature" where
  "new_client = \<lparr> private_key = None, public_key = None, tcs_worker = sha_config \<rparr>"

definition sha_worker :: worker_details where
  "sha_worker =
     \<lparr> hashing_algorithm = ''SHA-256'', signing_algorithm = ''SECP256K1'',
       worker_encryption_key = ''wek'', worker_typedata_verification_key = ''wvk'' \<rparr>"

section \<open>Example payloads\<close>

text \<open>Two requests with every mandatory field, whose single input item has \<^verbatim>\<open>data\<close> and
  \<^verbatim>\<open>index\<close> but no \<^verbatim>\<open>encryptedDataEncryptionKey\<close>, respectively no \<^verbatim>\<open>iv\<close>.\<close>

definition request_without_key :: json where
  "request_without_key =
     JObj [(''params'', JObj [(''requesterNonce'', JStr ''n''), (''workOrderId'', JStr ''wo''),
       (''workerId'', JStr ''wk''), (''requesterId'', JStr ''rq''),
       (''inData'', JList [JObj [(''index'', JInt 0), (''data'', JStr ''d''),
          (''iv'', JStr [])]])])]"

definition request_without_iv :: json where
  "request_without_iv =
     JObj [(''params'', JObj [(''requesterNonce'', JStr ''n''), (''workOrderId'', JStr ''wo''),
       (''workerId'', JStr ''wk''), (''requesterId'', JStr ''rq''),
       (''inData'', JList [JObj [(''index'', JInt 0), (''data'', JStr ''d''),
          (''encryptedDataEncryptionKey'', JStr ''-'')]])])]"

section \<open>Well-formed payloads\<close>

text \<open>
  The fields the signing and verifying code reads with \<^verbatim>\<open>.encode\<close> have to be strings.
  \<open>has_str\<close> holds of a dict with a string without surrogates under the key,
  \<open>opt_str\<close> also of a dict without the key, \<open>has_int_index\<close> of a dict whose \<^verbatim>\<open>index\<close> is an integer.
\<close>

definition has_str :: "json \<Rightarrow> string \<Rightarrow> bool" where
  "has_str obj k =
     (case py_getitem obj k of Inr (JStr s) \<Rightarrow> \<not> has_surrogate s | _ \<Rightarrow> False)"

definition opt_str :: "json \<Rightarrow> string \<Rightarrow> bool" where
  "opt_str obj k =
     (case py_getitem obj k of
        Inr (JStr s) \<Rightarrow> \<not> has_surrogate s
      | Inl (KeyError k') \<Rightarrow> True
      | _ \<Rightarrow> False)"

definition has_int_index :: "json \<Rightarrow> bool" where
  "has_int_index item = (case py_getitem item ''index'' of Inr k \<Rightarrow> is_int_key k | _ \<Rightarrow> False)"

definition wf_item :: "json \<Rightarrow> bool" where
  "wf_item item \<longleftrightarrow>
     has_int_index item \<and> opt_str item ''dataHash'' \<and> has_str item ''data''
     \<and> has_str item ''encryptedDataEncryptionKey'' \<and> has_str item ''iv''"

definition wf_header :: "json \<Rightarrow> bool" where
  "wf_header obj \<longleftrightarrow>
     has_str obj ''workOrderId'' \<and> has_str obj ''workerId'' \<and> opt_str obj ''workloadId''
     \<and> has_str obj ''requesterId''"

definition wf_items :: "json \<Rightarrow> string \<Rightarrow> bool" where
  "wf_items obj k = (case py_getitem obj k of Inr (JList xs) \<Rightarrow> list_all wf_item xs | _ \<Rightarrow> False)"

definition opt_wf_items :: "json \<Rightarrow> string \<Rightarrow> bool" where
  "opt_wf_items obj k =
     (case py_getitem obj k of
        Inr (JList xs) \<Rightarrow> list_all wf_item xs
      | Inl (KeyError k') \<Rightarrow> True
      | _ \<Rightarrow> False)"

text \<open>The sort of the items by their integer \<^verbatim>\<open>index\<close>, ascending and stable.\<close>

definition sort_by_index :: "json list \<Rightarrow> json list" where
  "sort_by_index xs = sort_key (\<lambda>x. int_of_key (index_key x)) xs"

section \<open>A request, its signed form, and responses\<close>

text \<open>A request with two input items out of order, one of them in clear text, and one
  output item.\<close>

definition example_request :: json where
  "example_request =
     JObj [(''jsonrpc'', JStr ''2.0''), (''id'', JInt 11),
       (''params'', JObj [(''requesterNonce'', JStr []), (''workOrderId'', JStr ''wo''),
         (''workerId'', JStr ''wk''), (''workloadId'', JStr ''wl''), (''requesterId'', JStr ''rq''),
         (''inData'', JList
            [JObj [(''index'', JInt 1), (''data'', JStr ''b''),
               (''encryptedDataEncryptionKey'', JStr ''-''), (''iv'', JStr [])],
             JObj [(''index'', JInt 0), (''dataHash'', JStr ''h''), (''data'', JStr ''ab''),
               (''encryptedDataEncryptionKey'', JStr []), (''iv'', JStr ''i'')]]),
         (''outData'', JList
            [JObj [(''index'', JInt 0), (''data'', JStr []),
               (''encryptedDataEncryptionKey'', JStr []), (''iv'', JStr [])]])])]"

text \<open>The value \<^verbatim>\<open>generate_client_signature\<close> hands to \<^verbatim>\<open>json.dumps\<close> for
  \<open>example_request\<close>, with the provider \<open>plain_crypto\<close>, session key \<open>sk\<close>, session
  vector \<open>si\<close> and encrypted session key \<open>ek\<close>.\<close>

definition example_signed_params :: json where
  "example_signed_params =
     JObj [(''requesterNonce'', JStr ''<rrrrrrrrrrrrrrrr>''), (''workOrderId'', JStr ''wo''),
       (''workerId'', JStr ''wk''), (''workloadId'', JStr ''wl''), (''requesterId'', JStr ''rq''),
       (''inData'', JList
          [JObj [(''index'', JInt 0), (''dataHash'', JStr ''h''), (''data'', JStr ''ba''),
             (''encryptedDataEncryptionKey'', JStr []), (''iv'', JStr ''i'')],
           JObj [(''index'', JInt 1), (''data'', JStr ''b''),
             (''encryptedDataEncryptionKey'', JStr ''-''), (''iv'', JStr [])]]),
       (''outData'', JList
          [JObj [(''index'', JInt 0), (''data'', JStr []),
             (''encryptedDataEncryptionKey'', JStr []), (''iv'', JStr [])]]),
       (''sessionKeyIv'', JStr ''7369''),
       (''encryptedRequestHash'', JStr
          ''3e3e3c3e2d623c3e696162683c3e71726c776b776f773e727272727272727272727272727272723c3c3c''),
       (''requesterSignature'', JStr ''<<<rrrrrrrrrrrrrrrr>wowkwlrq><hbai><b-><>>''),
       (''encryptedSessionKey'', JStr ''656b''),
       (''verifyingKey'', JStr ''pub'')]"

definition example_signed :: json where
  "example_signed =
     JObj [(''jsonrpc'', JStr ''2.0''), (''id'', JInt 11), (''params'', example_signed_params)]"

text \<open>
  A response whose result has two output items out of order; its \<^verbatim>\<open>workerSignature\<close> is,
  for the provider \<open>plain_crypto\<close>, the signature of its digest. And the same response
  without the \<^verbatim>\<open>workerNonce\<close>.
\<close>

definition example_result :: json where
  "example_result =
     JObj [(''workOrderId'', JStr ''wo''), (''workloadId'', JStr ''wl''), (''workerId'', JStr ''wk''),
       (''requesterId'', JStr ''rq''), (''workerNonce'', JStr ''wn''),
       (''workerSignature'', JStr ''<<wnwowkwlrq><x-><hy-v>>''),
       (''outData'', JList
          [JObj [(''index'', JInt 1), (''dataHash'', JStr ''h''), (''data'', JStr ''y''),
             (''encryptedDataEncryptionKey'', JStr ''-''), (''iv'', JStr ''v'')],
           JObj [(''index'', JInt 0), (''data'', JStr ''x''),
             (''encryptedDataEncryptionKey'', JStr ''-''), (''iv'', JStr [])]])]"

definition example_response :: json where
  "example_response = JObj [(''jsonrpc'', JStr ''2.0''), (''id'', JInt 11), (''result'', example_result)]"

definition result_without_nonce :: json where
  "result_without_nonce =
     JObj [(''workOrderId'', JStr ''wo''), (''workloadId'', JStr ''wl''), (''workerId'', JStr ''wk''),
       (''requesterId'', JStr ''rq''),
       (''workerSignature'', JStr ''<<wnwowkwlrq><x-><hy-v>>''),
       (''outData'', JList
          [JObj [(''index'', JInt 1), (''dataHash'', JStr ''h''), (''data'', JStr ''y''),
             (''encryptedDataEncryptionKey'', JStr ''-''), (''iv'', JStr ''v'')],
           JObj [(''index'', JInt 0), (''data'', JStr ''x''),
             (''encryptedDataEncryptionKey'', JStr ''-''), (''iv'', JStr [])]])]"

definition response_without_nonce :: json where
  "response_without_nonce =
     JObj [(''jsonrpc'', JStr ''2.0''), (''id'', JInt 11), (''result'', result_without_nonce)]"

text \<open>Two error responses that carry the nonce, the signature and the output items of
  \<open>example_result\<close>: one with an \<^verbatim>\<open>error\<close> member, one with a negative \<^verbatim>\<open>code\<close>.\<close>

definition response_with_error :: json where
  "response_with_error =
     JObj [(''jsonrpc'', JStr ''2.0''), (''id'', JInt 11),
       (''error'', JObj [(''code'', JInt 5), (''message'', JStr ''busy'')]),
       (''result'', example_result)]"

definition response_with_negative_code :: json where
  "response_with_negative_code =
     JObj [(''jsonrpc'', JStr ''2.0''), (''id'', JInt 11),
       (''result'', JObj [(''code'', JInt (- 1)), (''workOrderId'', JStr ''wo''),
          (''workerId'', JStr ''wk''), (''requesterId'', JStr ''rq''), (''workerNonce'', JStr ''wn''),
          (''workerSignature'', JStr ''<<wnwowkrq>>''), (''outData'', JList [])])]"

text \<open>A worker whose verification key the provider \<open>plain_crypto\<close> cannot construct.\<close>

definition unkeyed_worker :: worker_details where
  "unkeyed_worker = sha_worker\<lparr>worker_typedata_verification_key := []\<rparr>"

section \<open>Responses the verifier can process\<close>

text \<open>The path condition of \<^verbatim>\<open>verify_signature\<close> up to line 293: the algorithms of the
  worker are the configured ones, the response is a dict without \<^verbatim>\<open>error\<close>, and its
  \<^verbatim>\<open>result\<close> is a dict without \<^verbatim>\<open>code\<close> or with a \<^verbatim>\<open>code\<close> that is not below zero.\<close>

definition passes_error_checks ::
  "'sk ClientSignature \<Rightarrow> worker_details \<Rightarrow> json \<Rightarrow> json \<Rightarrow> bool" where
  "passes_error_checks self worker input_json result \<longleftrightarrow>
     HashingAlgorithm (tcs_worker self) = hashing_algorithm worker
     \<and> SigningAlgorithm (tcs_worker self) = signing_algorithm worker
     \<and> (case input_json of
          JObj kvs \<Rightarrow> map_of kvs ''error'' = None \<and> map_of kvs ''result'' = Some result
        | _ \<Rightarrow> False)
     \<and> (case result of
          JObj r \<Rightarrow>
            (case map_of r ''code'' of None \<Rightarrow> True | Some c \<Rightarrow> py_lt_zero c = Inr False)
        | _ \<Rightarrow> False)"

text \<open>
  Responses on which \<^verbatim>\<open>verify_signature\<close> reads every field it needs: the result has
  string header fields and a string \<^verbatim>\<open>workerNonce\<close>, its \<^verbatim>\<open>outData\<close> is a list of
  well-formed items, and its \<^verbatim>\<open>workerSignature\<close> is present and, where the verification
  key of the worker can be constructed, a string that the base64 decoder accepts.
\<close>

definition wf_signature :: "('sk, 'vk) crypto \<Rightarrow> worker_details \<Rightarrow> json \<Rightarrow> bool" where
  "wf_signature cp worker result =
     (case py_getitem result ''workerSignature'' of
        Inr signature \<Rightarrow>
          (case SIG_PublicKey cp (worker_typedata_verification_key worker) of
             None \<Rightarrow> True
           | Some vk \<Rightarrow>
               (case signature of JStr s \<Rightarrow> base64_to_byte_array cp s \<noteq> None | _ \<Rightarrow> False))
      | Inl e \<Rightarrow> False)"

definition wf_result :: "('sk, 'vk) crypto \<Rightarrow> worker_details \<Rightarrow> json \<Rightarrow> bool" where
  "wf_result cp worker result \<longleftrightarrow>
     has_str result ''workerNonce'' \<and> wf_signature cp worker result \<and> wf_header result
     \<and> wf_items result ''outData''"

definition wf_response :: "('sk, 'vk) crypto \<Rightarrow> worker_details \<Rightarrow> json \<Rightarrow> bool" where
  "wf_response cp worker input_json =
     (case input_json of
        JObj kvs \<Rightarrow>
          map_of kvs ''error'' \<noteq> None
          \<or> (case map_of kvs ''result'' of
                Some (JObj r) \<Rightarrow>
                  (case map_of r ''code'' of
                     None \<Rightarrow> wf_result cp worker (JObj r)
                   | Some c \<Rightarrow>
                       is_int_key c \<and> (int_of_key c < 0 \<or> wf_result cp worker (JObj r)))
              | _ \<Rightarrow> False)
      | _ \<Rightarrow> False)"

section \<open>The validator as the specification words it\<close>

text \<open>
  The payloads of the expected shape: a dict whose \<^verbatim>\<open>params\<close>, when present, is a dict
  whose \<^verbatim>\<open>inData\<close>, when present, is a list of dicts.
\<close>

fun is_dict :: "json \<Rightarrow> bool" where
  "is_dict (JObj kvs) = True"
| "is_dict _ = False"

definition shaped_params :: "json \<Rightarrow> bool" where
  "shaped_params params =
     (case params of
        JObj ps \<Rightarrow>
          (case map_of ps ''inData'' of
             None \<Rightarrow> True
           | Some (JList items) \<Rightarrow> list_all is_dict items
           | Some _ \<Rightarrow> False)
      | _ \<Rightarrow> False)"

definition shaped_request :: "json \<Rightarrow> bool" where
  "shaped_request data =
     (case data of
        JObj kvs \<Rightarrow> (case map_of kvs ''params'' of None \<Rightarrow> True | Some params \<Rightarrow> shaped_params params)
      | _ \<Rightarrow> False)"

text \<open>The mandatory fields that \<^verbatim>\<open>params\<close> lacks, and a data item with a present,
  non-empty \<^verbatim>\<open>data\<close> and a present \<^verbatim>\<open>index\<close>.\<close>

definition missing_fields :: "json \<Rightarrow> string list" where
  "missing_fields params = filter (\<lambda>name. py_contains name params \<noteq> Inr True) param_pool"

definition item_complete :: "json \<Rightarrow> bool" where
  "item_complete item \<longleftrightarrow>
     (case py_getitem item ''data'' of Inr d \<Rightarrow> py_truthy d | Inl e \<Rightarrow> False)
     \<and> (case py_getitem item ''index'' of Inr i \<Rightarrow> True | Inl e \<Rightarrow> False)"

definition missing_field_record :: "string \<Rightarrow> log_record" where
  "missing_field_record name =
     (ERROR, ''ERROR: Worker Order Submit Json does not have the required parameter: %s'',
      [AStr name])"

definition indata_record :: log_record where
  "indata_record =
     (ERROR, ''ERROR: Worker Order Submit Json does not have the required parameter in InData'',
      [])"

definition no_params_record :: log_record where
  "no_params_record =
     (ERROR, ''ERROR: Worker Order Submit Json does not have the required params'', [])"

text \<open>A request with every mandatory field whose \<^verbatim>\<open>inData\<close> holds a number.\<close>

definition request_with_number_item :: json where
  "request_with_number_item =
     JObj [(''params'', JObj [(''requesterNonce'', JStr ''n''), (''workOrderId'', JStr ''wo''),
       (''workerId'', JStr ''wk''), (''requesterId'', JStr ''rq''),
       (''inData'', JList [JInt 1])])]"

text \<open>A request that lacks two mandatory fields, and one with a defective item.\<close>

definition request_missing_two :: json where
  "request_missing_two =
     JObj [(''params'', JObj [(''workOrderId'', JStr ''wo''), (''workerId'', JStr ''wk''),
       (''inData'', JList [JObj []])])]"

definition request_with_empty_data :: json where
  "request_with_empty_data =
     JObj [(''params'', JObj [(''requesterNonce'', JStr ''n''), (''workOrderId'', JStr ''wo''),
       (''workerId'', JStr ''wk''), (''requesterId'', JStr ''rq''),
       (''inData'', JList [JObj [(''index'', JInt 0), (''data'', JStr [])],
                          JObj [(''index'', JInt 1), (''data'', JStr ''d'')]])])]"

section \<open>Sorting, then hashing\<close>

text \<open>The two steps the code applies to a list of data items: the sort by \<^verbatim>\<open>index\<close>
  (lines 100, 242 and 300) and \<^verbatim>\<open>__calculate_datahash\<close> on the sorted list.\<close>

definition sorted_item_hash :: "('sk, 'vk) crypto \<Rightarrow> json list \<Rightarrow> py_error + string" where
  "sorted_item_hash cp items =
     ebind (py_sort_by_index (JList items)) (\<lambda>sorted_items.
       calculate_datahash cp (JList sorted_items))"

text \<open>Two items with the same \<^verbatim>\<open>index\<close>, and two with different ones.\<close>

definition item_x :: json where
  "item_x = JObj [(''index'', JInt 0), (''data'', JStr ''x''),
     (''encryptedDataEncryptionKey'', JStr ''-''), (''iv'', JStr [])]"

definition item_y :: json where
  "item_y = JObj [(''index'', JInt 0), (''data'', JStr ''y''),
     (''encryptedDataEncryptionKey'', JStr ''-''), (''iv'', JStr [])]"

definition item_z :: json where
  "item_z = JObj [(''index'', JInt 1), (''data'', JStr ''z''),
     (''encryptedDataEncryptionKey'', JStr ''-''), (''iv'', JStr [])]"

section \<open>Requests that can be signed\<close>

text \<open>
  Requests on which the signing steps read every field they need: the header fields
  of \<^verbatim>\<open>params\<close> are strings, \<^verbatim>\<open>inData\<close> is a list of well-formed items, and so is
  \<^verbatim>\<open>outData\<close> when present.
\<close>

definition wf_request :: "json \<Rightarrow> bool" where
  "wf_request input_json =
     (case py_getitem input_json ''params'' of
        Inr params \<Rightarrow>
          wf_header params \<and> wf_items params ''inData'' \<and> opt_wf_items params ''outData''
      | Inl e \<Rightarrow> False)"

text \<open>A request with every mandatory field, whose \<^verbatim>\<open>workOrderId\<close> is a number.\<close>

definition request_with_number_id :: json where
  "request_with_number_id =
     JObj [(''params'', JObj [(''requesterNonce'', JStr ''n''), (''workOrderId'', JInt 7),
       (''workerId'', JStr ''wk''), (''requesterId'', JStr ''rq''),
       (''inData'', JList [JObj [(''index'', JInt 0), (''data'', JStr ''d''),
          (''encryptedDataEncryptionKey'', JStr ''-''), (''iv'', JStr [])]])])]"

text \<open>The three records that \<^verbatim>\<open>generate_client_signature\<close> logs when it gives up.\<close>

definition check_failed_record :: log_record where
  "check_failed_record = (ERROR, ''ERROR: Signing the request failed'', [])"

definition hashing_mismatch_record :: "worker_details \<Rightarrow> log_record" where
  "hashing_mismatch_record worker =
     (ERROR, ''ERROR: Signing the request failed. Hashing algorithm is not supported for %s'',
      [AStr (hashing_algorithm worker)])"

definition signing_mismatch_record :: "worker_details \<Rightarrow> log_record" where
  "signing_mismatch_record worker =
     (ERROR, ''ERROR: Signing the request failed. Signing algorithm is not supported for %s'',
      [AStr (signing_algorithm worker)])"

text \<open>
  The signed request as the specification describes it. \<open>put\<close> sets a member of a
  dict. An input item gets its \<^verbatim>\<open>data\<close> replaced by the base64 text that its
  \<^verbatim>\<open>encryptedDataEncryptionKey\<close> selects: of the data encrypted under the session key
  when the key field is empty or \<^verbatim>\<open>"null"\<close>, of the data themselves when it is \<^verbatim>\<open>"-"\<close>,
  of the data encrypted under the data key otherwise. The signed \<^verbatim>\<open>params\<close> hold the
  session vector in hex, the input items sorted by \<^verbatim>\<open>index\<close> and so replaced, the output
  items sorted, the request digest encrypted under the session key in hex, its
  signature in base64, the encrypted session key in hex, the public key of the signer
  and the nonce digest.
\<close>

definition put :: "string \<Rightarrow> json \<Rightarrow> json \<Rightarrow> json" where
  "put k v obj = (case obj of JObj kvs \<Rightarrow> JObj (AList.update k v kvs) | _ \<Rightarrow> obj)"

definition policy_text ::
  "('sk, 'vk) crypto \<Rightarrow> bytes \<Rightarrow> bytes \<Rightarrow> bytes option \<Rightarrow> bytes option \<Rightarrow> json \<Rightarrow> string" where
  "policy_text cp sk siv dk dv item =
     (let data = field_bytes item ''data'';
          e_key = field_bytes item ''encryptedDataEncryptionKey''
      in base64_text cp
           (if e_key = [] \<or> e_key = ''null'' then encrypt_data cp data (Some sk) (Some siv)
            else if e_key = ''-'' then data
            else encrypt_data cp data dk dv))"

definition encrypted_item ::
  "('sk, 'vk) crypto \<Rightarrow> bytes \<Rightarrow> bytes \<Rightarrow> bytes option \<Rightarrow> bytes option \<Rightarrow> json \<Rightarrow> json" where
  "encrypted_item cp sk siv dk dv item = put ''data'' (JStr (policy_text cp sk siv dk dv item)) item"

definition signed_params ::
  "('sk, 'vk) crypto \<Rightarrow> 'sk \<Rightarrow> bytes \<Rightarrow> bytes \<Rightarrow> bytes \<Rightarrow> bytes option \<Rightarrow> bytes option \<Rightarrow> json
     \<Rightarrow> json" where
  "signed_params cp pk sk siv esk dk dv params =
     (let in_items = map (encrypted_item cp sk siv dk dv)
                       (sort_by_index (field_items params ''inData''));
          out_items = sort_by_index (field_items params ''outData'');
          nonce_digest =
            base64_text cp (compute_message_hash cp (random_bit_string cp NO_OF_BYTES));
          digest = compute_message_hash cp
                     (header_hash cp params nonce_digest @ item_hash cp in_items
                        @ item_hash cp out_items);
          p1 = put ''sessionKeyIv'' (JStr (hex_str siv)) params;
          p2 = put ''inData'' (JList in_items) p1;
          p3 = (case py_getitem params ''outData'' of
                  Inr out \<Rightarrow> put ''outData'' (JList out_items) p2
                | Inl e \<Rightarrow> p2)
      in put ''requesterNonce'' (JStr nonce_digest)
           (put ''verifyingKey'' (JStr (GetPublicKey_Serialize cp pk))
              (put ''encryptedSessionKey'' (JStr (hex_str esk))
                 (put ''requesterSignature''
                    (JStr (base64_text cp (SignMessage cp pk digest)))
                    (put ''encryptedRequestHash''
                       (JStr (hex_str (encrypt_data cp digest (Some sk) (Some siv)))) p3)))))"

definition signed_request ::
  "('sk, 'vk) crypto \<Rightarrow> 'sk \<Rightarrow> bytes \<Rightarrow> bytes \<Rightarrow> bytes \<Rightarrow> bytes option \<Rightarrow> bytes option \<Rightarrow> json
     \<Rightarrow> json" where
  "signed_request cp pk sk siv esk dk dv input_json =
     (case py_getitem input_json ''params'' of
        Inr params \<Rightarrow> put ''params'' (signed_params cp pk sk siv esk dk dv params) input_json
      | Inl e \<Rightarrow> input_json)"

section \<open>Basic facts\<close>

lemma ebind_simps [simp]: "ebind (Inl e) f = Inl e" "ebind (Inr x) f = f x"
  by (simp_all add: ebind_def)

lemma bnd_simps [simp]:
  "bnd (l, Inl e) f = (l, Inl e)"
  "bnd (l, Inr x) f = (l @ fst (f x), snd (f x))"
  by (simp_all add: bnd_def split: prod.splits)

lemma run_simps [simp]:
  "ret x = ([], Inr x)" "lift m = ([], m)" "logger lv msg args = ([(lv, msg, args)], Inr ())"
  by (simp_all add: ret_def lift_def logger_def)

lemma snd_bnd: "snd (bnd m f) = (case snd m of Inl e \<Rightarrow> Inl e | Inr x \<Rightarrow> snd (f x))"
  by (cases m) (simp add: bnd_def split: sum.splits prod.splits)

lemma fst_bnd: "fst (bnd m f) = (case snd m of Inl e \<Rightarrow> fst m | Inr x \<Rightarrow> fst m @ fst (f x))"
  by (cases m) (simp add: bnd_def split: sum.splits prod.splits)

section \<open>Text without surrogates\<close>

lemma ascii_no_surrogate: "ascii_text s \<Longrightarrow> \<not> has_surrogate s"
  by (induction s rule: has_surrogate.induct) (auto simp: ascii_text_def)

lemma ascii_append: "ascii_text (xs @ ys) \<longleftrightarrow> ascii_text xs \<and> ascii_text ys"
  by (simp add: ascii_text_def)

lemma ascii_concat: "(\<And>x. x \<in> set xs \<Longrightarrow> ascii_text x) \<Longrightarrow> ascii_text (concat xs)"
  by (induction xs) (simp_all add: ascii_text_def)

lemma ascii_literal: "ascii_text (String.explode l)"
proof -
  have "\<forall>c\<in>set (String.explode l). \<not> digit7 c" using String.explode [of l] by simp
  moreover have "\<not> digit7 c \<Longrightarrow> of_char c < (128 :: nat)" for c
    by (cases c) (simp add: of_char_def of_nat_def [symmetric] bit_simps)
  ultimately show ?thesis by (simp add: ascii_text_def list_all_iff)
qed

lemma literal_no_surrogate [simp]: "\<not> has_surrogate (String.explode l)"
  by (rule ascii_no_surrogate) (rule ascii_literal)

section \<open>Requests that pass the check and cannot be signed\<close>

lemma check_without_key: "payload_json_check (Parses request_without_key) = ([], Inr True)"
  by (simp add: payload_json_check_def request_without_key_def param_pool_def indata_defect_def)

lemma check_without_iv: "payload_json_check (Parses request_without_iv) = ([], Inr True)"
  by (simp add: payload_json_check_def request_without_iv_def param_pool_def indata_defect_def)

lemma sign_without_key:
  "snd (generate_client_signature cp new_client (Parses request_without_key) sha_worker pk sk siv esk dk dv)
     = Inl (KeyError ''encryptedDataEncryptionKey'')"
  unfolding generate_client_signature_def check_without_key
  by (simp add: new_client_def sha_config_def sha_worker_def sign_request_def
        request_without_key_def encrypt_workorder_indata_def py_sort_by_index_def encrypt_item_def
        get_encoded_def)

lemma sign_without_iv:
  "snd (generate_client_signature cp new_client (Parses request_without_iv) sha_worker pk sk siv esk dk dv)
     = Inl (KeyError ''iv'')"
  unfolding generate_client_signature_def check_without_iv
  by (simp add: new_client_def sha_config_def sha_worker_def sign_request_def
        request_without_iv_def encrypt_workorder_indata_def py_sort_by_index_def encrypt_item_def
        calculate_hash_on_concatenated_string_def calculate_datahash_def item_digest_def Let_def
        get_encoded_def get_encoded_if_present_def)

lemma encrypt_item_reads_key:
  "isl (py_getitem item ''encryptedDataEncryptionKey'')
     \<Longrightarrow> isl (snd (encrypt_item cp sk siv dk dv item))"
  by (auto simp: encrypt_item_def get_encoded_def snd_bnd isl_def split: sum.splits)

lemma item_digest_reads_key_and_iv:
  "isl (py_getitem item ''encryptedDataEncryptionKey'') \<or> isl (py_getitem item ''iv'')
     \<Longrightarrow> isl (item_digest cp item)"
  by (auto simp: item_digest_def get_encoded_def isl_def ebind_def split: sum.splits)

text \<open>
  Claim C10. Passing the check does not guarantee that signing completes. The
  encryptor reads \<^verbatim>\<open>encryptedDataEncryptionKey\<close> of every item it processes, and the
  per-item hash reads \<^verbatim>\<open>encryptedDataEncryptionKey\<close> and \<^verbatim>\<open>iv\<close>, without a default:
  where the read fails, the step raises. The request \<open>request_without_key\<close> passes
  the check and \<^verbatim>\<open>generate_client_signature\<close> raises \<^verbatim>\<open>KeyError\<close> on it, whatever the
  provider and the keys; so does \<open>request_without_iv\<close>. No signed request is produced.
\<close>

theorem checked_request_raises_KeyError:
  "(isl (py_getitem item ''encryptedDataEncryptionKey'')
      \<longrightarrow> isl (snd (encrypt_item cp sk siv dk dv item)))
   \<and> (isl (py_getitem item ''encryptedDataEncryptionKey'') \<or> isl (py_getitem item ''iv'')
      \<longrightarrow> isl (item_digest cp item))
   \<and> snd (payload_json_check (Parses request_without_key)) = Inr True
   \<and> snd (generate_client_signature cp new_client (Parses request_without_key) sha_worker
            pk sk siv esk dk dv) = Inl (KeyError ''encryptedDataEncryptionKey'')
   \<and> snd (payload_json_check (Parses request_without_iv)) = Inr True
   \<and> snd (generate_client_signature cp new_client (Parses request_without_iv) sha_worker
            pk sk siv esk dk dv) = Inl (KeyError ''iv'')"
  using encrypt_item_reads_key [of item cp sk siv dk dv]
    item_digest_reads_key_and_iv [of item cp]
    sign_without_key [of cp pk sk siv esk dk dv] sign_without_iv [of cp pk sk siv esk dk dv]
  by (simp add: check_without_key check_without_iv)

theorem checked_request_raises_KeyError_witness:
  "isl (py_getitem (JObj [(''index'', JInt 0), (''data'', JStr ''d'')])
          ''encryptedDataEncryptionKey'')
   \<and> isl (snd (encrypt_item plain_crypto ''k'' ''v'' None None
                 (JObj [(''index'', JInt 0), (''data'', JStr ''d'')])))
   \<and> isl (item_digest plain_crypto (JObj [(''index'', JInt 0), (''data'', JStr ''d'')]))"
  using checked_request_raises_KeyError
          [of "JObj [(''index'', JInt 0), (''data'', JStr ''d'')]" plain_crypto
              "''k''" "''v''" None None "()" "''e''"]
  by simp

section \<open>The encryption policy\<close>

text \<open>
  Claim C3, at an item whose \<^verbatim>\<open>encryptedDataEncryptionKey\<close> is absent: the encryptor
  raises \<^verbatim>\<open>KeyError\<close> at the read of the field (line 107); it does not encrypt the
  item under the session key. The input is the \<^verbatim>\<open>params\<close> object of
  \<open>request_without_key\<close>.
\<close>

theorem encryptor_absent_key_raises:
  "snd (encrypt_workorder_indata cp
          (JObj [(''requesterNonce'', JStr ''n''), (''workOrderId'', JStr ''wo''),
             (''workerId'', JStr ''wk''), (''requesterId'', JStr ''rq''),
             (''inData'', JList [JObj [(''index'', JInt 0), (''data'', JStr ''d''),
                (''iv'', JStr [])]])])
          sk siv wk dk dv)
     = Inl (KeyError ''encryptedDataEncryptionKey'')"
  by (simp add: encrypt_workorder_indata_def py_sort_by_index_def encrypt_item_def
        get_encoded_def)

section \<open>Reading fields, and the two hash builders\<close>

lemma ebind_Inr_iff: "ebind m f = Inr y \<longleftrightarrow> (\<exists>x. m = Inr x \<and> f x = Inr y)"
  by (cases m) simp_all

lemma getitem_Inr_iff:
  "py_getitem obj k = Inr v \<longleftrightarrow> (\<exists>kvs. obj = JObj kvs \<and> map_of kvs k = Some v)"
  by (cases obj) (auto split: option.splits)

lemma contains_JObj: "py_contains k (JObj kvs) = Inr (map_of kvs k \<noteq> None)"
  by (simp add: map_of_eq_None_iff)

lemma encode_Inr_iff: "py_encode v = Inr b \<longleftrightarrow> v = JStr b \<and> \<not> has_surrogate b"
  by (cases v) auto

lemma get_encoded_Inr_iff:
  "get_encoded obj k = Inr b \<longleftrightarrow> py_getitem obj k = Inr (JStr b) \<and> \<not> has_surrogate b"
  by (auto simp: get_encoded_def ebind_Inr_iff encode_Inr_iff)

lemma ascii_header_hash: "ascii_text (header_hash cp p n)"
  by (simp add: header_hash_def ascii_literal)

lemma ascii_item_hash: "ascii_text (item_hash cp items)"
  unfolding item_hash_def
  by (rule ascii_concat) (auto simp: item_sub_hash_def ascii_literal)

lemma encode_ascii: "ascii_text s \<Longrightarrow> py_encode (JStr s) = Inr s"
  by (simp add: ascii_no_surrogate)

lemma get_encoded_success: "get_encoded obj k = Inr b \<Longrightarrow> field_bytes obj k = b"
  by (simp add: get_encoded_Inr_iff field_bytes_def)

lemma get_encoded_wf: "has_str obj k \<Longrightarrow> get_encoded obj k = Inr (field_bytes obj k)"
  by (auto simp: has_str_def field_bytes_def get_encoded_Inr_iff split: sum.splits json.splits)

lemma get_encoded_if_present_success:
  assumes "get_encoded_if_present obj k = Inr b"
  shows "field_bytes obj k = b"
proof -
  from assms obtain c where c: "py_contains k obj = Inr c"
    and r: "(if c then get_encoded obj k else Inr []) = Inr b"
    by (auto simp: get_encoded_if_present_def ebind_Inr_iff)
  show ?thesis
  proof (cases c)
    case True
    with r show ?thesis by (simp add: get_encoded_success)
  next
    case False
    with r c have "b = []" and "py_contains k obj = Inr False" by simp_all
    then show ?thesis
      by (cases obj) (auto simp: field_bytes_def map_of_eq_None_iff [symmetric]
            simp del: map_of_eq_None_iff split: option.splits)
  qed
qed

lemma get_encoded_if_present_wf:
  assumes "opt_str obj k"
  shows "get_encoded_if_present obj k = Inr (field_bytes obj k)"
proof -
  from assms obtain kvs where obj: "obj = JObj kvs"
    by (cases obj) (auto simp: opt_str_def)
  show ?thesis
  proof (cases "map_of kvs k")
    case None
    then show ?thesis
      by (simp add: obj get_encoded_if_present_def contains_JObj field_bytes_def
            del: py_contains.simps)
  next
    case (Some v)
    with assms obj obtain s where "v = JStr s" "\<not> has_surrogate s"
      by (cases v) (auto simp: opt_str_def)
    with Some show ?thesis
      by (simp add: obj get_encoded_if_present_def get_encoded_def contains_JObj field_bytes_def
            del: py_contains.simps)
  qed
qed

lemma header_success:
  assumes "calculate_hash_on_concatenated_string cp p n = Inr h"
  shows "h = header_hash cp p n"
  using assms
  unfolding calculate_hash_on_concatenated_string_def header_hash_def Let_def
  by (auto simp: ebind_Inr_iff dest!: get_encoded_success get_encoded_if_present_success)

lemma header_wf:
  "wf_header p \<Longrightarrow> calculate_hash_on_concatenated_string cp p n = Inr (header_hash cp p n)"
  unfolding calculate_hash_on_concatenated_string_def header_hash_def Let_def wf_header_def
  by (simp add: get_encoded_wf get_encoded_if_present_wf)

lemma item_digest_success: "item_digest cp item = Inr d \<Longrightarrow> d = item_sub_hash cp item"
  unfolding item_digest_def item_sub_hash_def Let_def
  by (auto simp: ebind_Inr_iff dest!: get_encoded_success get_encoded_if_present_success)

lemma item_digest_wf: "wf_item item \<Longrightarrow> item_digest cp item = Inr (item_sub_hash cp item)"
  unfolding item_digest_def item_sub_hash_def Let_def wf_item_def
  by (simp add: get_encoded_wf get_encoded_if_present_wf)

lemma datahash_loop_success:
  "datahash_loop cp xs acc = Inr r \<Longrightarrow> r = acc @ item_hash cp xs"
proof (induction xs arbitrary: acc)
  case Nil
  then show ?case by (simp add: item_hash_def)
next
  case (Cons x xs)
  from Cons.prems obtain d where d: "item_digest cp x = Inr d"
    and r: "datahash_loop cp xs (acc @ d) = Inr r"
    by (auto simp: ebind_Inr_iff)
  from Cons.IH [OF r] item_digest_success [OF d] show ?case
    by (simp add: item_hash_def)
qed

lemma datahash_loop_wf:
  "list_all wf_item xs \<Longrightarrow> datahash_loop cp xs acc = Inr (acc @ item_hash cp xs)"
  by (induction xs arbitrary: acc) (simp_all add: item_hash_def item_digest_wf)

lemma calculate_datahash_success:
  "calculate_datahash cp (JList xs) = Inr r \<Longrightarrow> r = item_hash cp xs"
  using datahash_loop_success [of cp xs "[]" r] by (simp add: calculate_datahash_def)

lemma calculate_datahash_wf:
  "list_all wf_item xs \<Longrightarrow> calculate_datahash cp (JList xs) = Inr (item_hash cp xs)"
  by (simp add: calculate_datahash_def datahash_loop_wf)

section \<open>Assignments and sorting\<close>

lemma setitem_getitem:
  "py_setitem p k v = Inr p' \<Longrightarrow> py_getitem p' k' = (if k' = k then Inr v else py_getitem p k')"
  by (cases p) (auto simp: update_conv')

lemma setitem_JObj: "py_getitem p k = Inr v \<Longrightarrow> \<exists>p'. py_setitem p k' x = Inr p'"
  by (cases p) auto

lemma setitem_field_bytes:
  "py_setitem p k v = Inr p' \<Longrightarrow> k' \<noteq> k \<Longrightarrow> field_bytes p' k' = field_bytes p k'"
  by (simp add: field_bytes_def setitem_getitem)

lemma setitem_field_items:
  "py_setitem p k v = Inr p' \<Longrightarrow> k' \<noteq> k \<Longrightarrow> field_items p' k' = field_items p k'"
  by (simp add: field_items_def setitem_getitem)

lemma map_err_index:
  "list_all has_int_index xs \<Longrightarrow> map_err (\<lambda>x. py_getitem x ''index'') xs = Inr (map index_key xs)"
  by (induction xs) (auto simp: has_int_index_def index_key_def split: sum.splits)

lemma int_keys_of_items:
  "list_all has_int_index xs \<Longrightarrow> list_all is_int_key (map index_key xs)"
  by (induction xs) (auto simp: has_int_index_def index_key_def split: sum.splits)

lemma sort_key_short: "length xs < 2 \<Longrightarrow> sort_key f xs = xs"
  by (cases xs) (auto simp: less_Suc_eq)

lemma py_sort_by_index_wf:
  "list_all has_int_index xs \<Longrightarrow> py_sort_by_index (JList xs) = Inr (sort_by_index xs)"
  by (simp add: py_sort_by_index_def map_err_index int_keys_of_items sort_by_index_def
        sort_key_short)

lemma py_sort_by_index_success:
  assumes "py_sort_by_index v = Inr s"
  shows "\<exists>xs. v = JList xs \<and> mset s = mset xs"
proof -
  from assms obtain xs where v: "v = JList xs"
    by (cases v) (auto simp: py_sort_by_index_def)
  with assms have "mset s = mset xs"
    by (auto simp: py_sort_by_index_def ebind_Inr_iff split: if_splits)
  with v show ?thesis by simp
qed

lemma wf_item_sorted: "list_all wf_item xs \<Longrightarrow> list_all wf_item (sort_by_index xs)"
  by (simp add: list_all_iff sort_by_index_def)

lemma wf_item_has_int_index: "list_all wf_item xs \<Longrightarrow> list_all has_int_index xs"
  by (simp add: list_all_iff wf_item_def)

section \<open>The encryptor and the hash of the output items\<close>

lemma setitem_put: "is_dict p \<Longrightarrow> py_setitem p k v = Inr (put k v p)"
  by (cases p) (simp_all add: put_def)

lemma is_dict_put: "is_dict (put k v p) = is_dict p"
  by (cases p) (simp_all add: put_def)

lemma getitem_put:
  "is_dict p \<Longrightarrow> py_getitem (put k v p) k' = (if k' = k then Inr v else py_getitem p k')"
  by (cases p) (auto simp: put_def update_conv')

lemma put_put: "put k v (put k v' p) = put k v p"
  by (cases p) (simp_all add: put_def)

lemma getitem_is_dict: "py_getitem p k = Inr v \<Longrightarrow> is_dict p"
  by (cases p) auto

lemma encrypt_item_policy:
  assumes "py_getitem item ''data'' = Inr (JStr d)" and "\<not> has_surrogate d"
    and "py_getitem item ''encryptedDataEncryptionKey'' = Inr (JStr e)" and "\<not> has_surrogate e"
  shows "snd (encrypt_item cp sk siv dk dv item) =
           py_setitem item ''data''
             (JStr (base64_text cp
                (if e = [] \<or> e = ''null'' then encrypt_data cp d (Some sk) (Some siv)
                 else if e = ''-'' then d
                 else encrypt_data cp d dk dv)))"
  using assms
  by (simp add: encrypt_item_def get_encoded_def snd_bnd Let_def split: sum.splits)

lemma encrypt_item_success:
  assumes "snd (encrypt_item cp sk siv dk dv item) = Inr item'"
  shows "\<exists>s. py_setitem item ''data'' (JStr s) = Inr item'"
proof -
  from assms obtain d e where "get_encoded item ''data'' = Inr d"
    and "get_encoded item ''encryptedDataEncryptionKey'' = Inr e"
    by (auto simp: encrypt_item_def snd_bnd split: sum.splits)
  then have "py_getitem item ''data'' = Inr (JStr d)" "\<not> has_surrogate d"
    and "py_getitem item ''encryptedDataEncryptionKey'' = Inr (JStr e)" "\<not> has_surrogate e"
    by (simp_all add: get_encoded_Inr_iff)
  from encrypt_item_policy [OF this, of cp sk siv dk dv] assms show ?thesis by auto
qed

lemma wf_item_put_data:
  "wf_item item \<Longrightarrow> \<not> has_surrogate s \<Longrightarrow> wf_item (put ''data'' (JStr s) item)"
  by (cases item)
     (simp_all add: wf_item_def has_int_index_def opt_str_def has_str_def put_def update_conv')

lemma encrypt_item_wf:
  assumes "wf_item item"
  shows "snd (encrypt_item cp sk siv dk dv item) = Inr (encrypted_item cp sk siv dk dv item)"
proof -
  from assms obtain d e where d: "py_getitem item ''data'' = Inr (JStr d)" "\<not> has_surrogate d"
    and e: "py_getitem item ''encryptedDataEncryptionKey'' = Inr (JStr e)" "\<not> has_surrogate e"
    by (auto simp: wf_item_def has_str_def split: sum.splits json.splits)
  from encrypt_item_policy [OF d e, of cp sk siv dk dv] d(1) e(1) show ?thesis
    by (simp add: setitem_put [OF getitem_is_dict [OF d(1)]] encrypted_item_def policy_text_def
          field_bytes_def)
qed

lemma encrypted_item_wf:
  "wf_item item \<Longrightarrow> wf_item (encrypted_item cp sk siv dk dv item)"
  unfolding encrypted_item_def policy_text_def Let_def
  by (rule wf_item_put_data) simp_all

lemma encrypt_items_success:
  "snd (encrypt_items cp sk siv dk dv xs) = Inr ys \<Longrightarrow> length ys = length xs"
  by (induction xs arbitrary: ys) (auto simp: snd_bnd split: sum.splits)

lemma encrypt_items_wf:
  "list_all wf_item xs
     \<Longrightarrow> snd (encrypt_items cp sk siv dk dv xs) = Inr (map (encrypted_item cp sk siv dk dv) xs)"
  by (induction xs) (simp_all add: snd_bnd encrypt_item_wf)

lemma encrypted_items_wf:
  "list_all wf_item xs
     \<Longrightarrow> list_all wf_item (map (encrypted_item cp sk siv dk dv) xs)"
  by (simp add: list_all_iff encrypted_item_wf)

lemma encrypt_workorder_indata_success:
  assumes "snd (encrypt_workorder_indata cp p sk siv wk dk dv) = Inr p2"
  shows "\<exists>items. py_getitem p2 ''inData'' = Inr (JList items)
           \<and> (\<forall>k. k \<noteq> ''inData'' \<longrightarrow> py_getitem p2 k = py_getitem p k)"
  using assms
  by (auto simp: encrypt_workorder_indata_def snd_bnd setitem_getitem split: sum.splits)

lemma encrypt_workorder_indata_wf:
  assumes "wf_items p ''inData''"
  shows "snd (encrypt_workorder_indata cp p sk siv wk dk dv)
           = Inr (put ''inData''
                    (JList (map (encrypted_item cp sk siv dk dv)
                              (sort_by_index (field_items p ''inData'')))) p)"
proof -
  from assms obtain xs where xs: "py_getitem p ''inData'' = Inr (JList xs)" "list_all wf_item xs"
    by (auto simp: wf_items_def split: sum.splits json.splits)
  then have sorted: "py_sort_by_index (JList xs) = Inr (sort_by_index xs)"
    by (simp add: py_sort_by_index_wf wf_item_has_int_index)
  from xs(1) have d: "is_dict p" by (rule getitem_is_dict)
  show ?thesis
    by (simp add: encrypt_workorder_indata_def snd_bnd xs(1) sorted setitem_put d is_dict_put
          encrypt_items_wf [OF wf_item_sorted [OF xs(2)]] put_put field_items_def)
qed

lemma contains_False_getitem: "py_contains k p = Inr False \<Longrightarrow> py_getitem p k \<noteq> Inr v"
  by (cases p) (auto simp: map_of_eq_None_iff [symmetric] simp del: map_of_eq_None_iff split: option.splits)

lemma outdata_hash_success:
  assumes "outdata_hash cp p = Inr (p3, h3)"
  shows "h3 = item_hash cp (field_items p3 ''outData'')
           \<and> (\<forall>k. k \<noteq> ''outData'' \<longrightarrow> py_getitem p3 k = py_getitem p k)"
proof -
  from assms obtain c where c: "py_contains ''outData'' p = Inr c"
    by (auto simp: outdata_hash_def ebind_Inr_iff)
  show ?thesis
  proof (cases c)
    case True
    with assms c obtain v s where "py_getitem p ''outData'' = Inr v"
      and "py_sort_by_index v = Inr s"
      and p3: "py_setitem p ''outData'' (JList s) = Inr p3"
      and h3: "calculate_datahash cp (JList s) = Inr h3"
      by (auto simp: outdata_hash_def ebind_Inr_iff)
    from calculate_datahash_success [OF h3] p3 show ?thesis
      by (simp add: field_items_def setitem_getitem)
  next
    case False
    with assms c have "p3 = p" "h3 = []" by (simp_all add: outdata_hash_def)
    moreover from False c have "field_items p ''outData'' = []"
      using contains_False_getitem [of "''outData''" p]
      by (auto simp: field_items_def split: sum.splits json.splits)
    ultimately show ?thesis by (simp add: item_hash_def)
  qed
qed

section \<open>The digest of a signed request\<close>

lemma header_hash_cong:
  assumes "\<And>k. k \<in> {''workOrderId'', ''workerId'', ''workloadId'', ''requesterId''}
             \<Longrightarrow> py_getitem p' k = py_getitem p k"
  shows "header_hash cp p' n = header_hash cp p n"
  using assms by (simp add: header_hash_def field_bytes_def)

lemma sign_request_success:
  assumes "snd (sign_request cp self input_json_str worker pk sk siv esk dk dv) = Inr (self', signed)"
  shows "\<exists>params. py_getitem signed ''params'' = Inr params
     \<and> py_getitem params ''requesterSignature''
         = Inr (JStr (base64_text cp (SignMessage cp pk (request_digest cp params))))
     \<and> py_getitem params ''encryptedRequestHash''
         = Inr (JStr (hex_str (encrypt_data cp (request_digest cp params) (Some sk) (Some siv))))
     \<and> py_getitem params ''requesterNonce''
         = Inr (JStr (base64_text cp
              (compute_message_hash cp (random_bit_string cp NO_OF_BYTES))))"
proof -
  define nh where
    "nh = base64_text cp (compute_message_hash cp (random_bit_string cp NO_OF_BYTES))"
  from assms obtain input_json p0 p1 p2 h1 d h2 p3 h3 p4 p5 p6 p7 p8 vk where
    p0: "py_getitem input_json ''params'' = Inr p0"
    and p1: "py_setitem p0 ''sessionKeyIv'' (JStr (hex_str siv)) = Inr p1"
    and p2: "snd (encrypt_workorder_indata cp p1 sk siv (worker_encryption_key worker) dk dv)
               = Inr p2"
    and h1: "calculate_hash_on_concatenated_string cp p2 nh = Inr h1"
    and d: "py_getitem p2 ''inData'' = Inr d"
    and h2: "calculate_datahash cp d = Inr h2"
    and p3: "outdata_hash cp p2 = Inr (p3, h3)"
    and p4: "py_setitem p3 ''encryptedRequestHash''
               (JStr (hex_str (encrypt_data cp (compute_message_hash cp (h1 @ h2 @ h3))
                  (Some sk) (Some siv)))) = Inr p4"
    and p5: "py_setitem p4 ''requesterSignature''
               (JStr (base64_text cp
                  (SignMessage cp pk (compute_message_hash cp (h1 @ h2 @ h3))))) = Inr p5"
    and p6: "py_setitem p5 ''encryptedSessionKey'' (JStr (hex_str esk)) = Inr p6"
    and p7: "py_setitem p6 ''verifyingKey'' vk = Inr p7"
    and p8: "py_setitem p7 ''requesterNonce'' (JStr nh) = Inr p8"
    and signed: "py_setitem input_json ''params'' p8 = Inr signed"
    unfolding sign_request_def Let_def nh_def generate_signature_def
    by (auto simp: snd_bnd split: sum.splits prod.splits if_splits)
  from encrypt_workorder_indata_success [OF p2] d obtain items where items: "d = JList items"
    by auto
  have late: "py_getitem p8 k = py_getitem p3 k"
    if "k \<notin> {''encryptedRequestHash'', ''requesterSignature'', ''encryptedSessionKey'',
               ''verifyingKey'', ''requesterNonce''}" for k
    using that
    by (simp add: setitem_getitem [OF p8] setitem_getitem [OF p7] setitem_getitem [OF p6]
          setitem_getitem [OF p5] setitem_getitem [OF p4])
  from outdata_hash_success [OF p3]
  have h3: "h3 = item_hash cp (field_items p3 ''outData'')"
    and out: "\<And>k. k \<noteq> ''outData'' \<Longrightarrow> py_getitem p3 k = py_getitem p2 k" by auto
  have "header_hash cp p8 nh = header_hash cp p2 nh"
    by (rule header_hash_cong) (auto simp: late out)
  with header_success [OF h1] have e1: "header_hash cp p8 nh = h1" by simp
  have e2: "item_hash cp (field_items p8 ''inData'') = h2"
    using calculate_datahash_success [OF h2 [unfolded items]] d
    by (simp add: field_items_def late out items)
  have e3: "item_hash cp (field_items p8 ''outData'') = h3"
    by (simp add: h3 field_items_def late)
  have nonce: "py_getitem p8 ''requesterNonce'' = Inr (JStr nh)"
    by (simp add: setitem_getitem [OF p8])
  then have "field_bytes p8 ''requesterNonce'' = nh" by (simp add: field_bytes_def)
  with e1 e2 e3 have digest: "request_digest cp p8 = compute_message_hash cp (h1 @ h2 @ h3)"
    by (simp add: request_digest_def)
  have "py_getitem signed ''params'' = Inr p8" by (simp add: setitem_getitem [OF signed])
  moreover have "py_getitem p8 ''requesterSignature''
      = Inr (JStr (base64_text cp (SignMessage cp pk (request_digest cp p8))))"
    by (simp add: digest setitem_getitem [OF p8] setitem_getitem [OF p7] setitem_getitem [OF p6]
          setitem_getitem [OF p5])
  moreover have "py_getitem p8 ''encryptedRequestHash''
      = Inr (JStr (hex_str (encrypt_data cp (request_digest cp p8) (Some sk) (Some siv))))"
    by (simp add: digest setitem_getitem [OF p8] setitem_getitem [OF p7] setitem_getitem [OF p6]
          setitem_getitem [OF p5] setitem_getitem [OF p4])
  ultimately show ?thesis using nonce unfolding nh_def by blast
qed

lemma generate_client_signature_Some:
  assumes "snd (generate_client_signature cp self input_json_str worker pk sk siv esk dk dv)
             = Inr (self', Some signed)"
  shows "snd (payload_json_check input_json_str) = Inr True
    \<and> HashingAlgorithm (tcs_worker self) = hashing_algorithm worker
    \<and> SigningAlgorithm (tcs_worker self) = signing_algorithm worker
    \<and> snd (sign_request cp self input_json_str worker pk sk siv esk dk dv) = Inr (self', signed)"
  using assms unfolding generate_client_signature_def
  by (auto simp: snd_bnd split: sum.splits if_splits prod.splits)

lemma example_request_signed:
  "snd (generate_client_signature plain_crypto new_client (Parses example_request) sha_worker ()
          ''sk'' ''si'' ''ek'' None None)
     = Inr (\<lparr>private_key = Some (), public_key = Some ''pub'', tcs_worker = sha_config\<rparr>,
            Some example_signed)"
  by code_simp

text \<open>
  Claim C1. Whenever \<^verbatim>\<open>generate_client_signature\<close> returns a signed request, the
  digest it has signed (\<^verbatim>\<open>requesterSignature\<close>) and encrypted (\<^verbatim>\<open>encryptedRequestHash\<close>)
  is \<open>request_digest\<close> of the returned \<^verbatim>\<open>params\<close>: the hash of the concatenation of the
  base64 header hash, of the item hash of \<^verbatim>\<open>inData\<close> and of the item hash of \<^verbatim>\<open>outData\<close>
  (empty when there is none), where an item hash is the concatenation of the base64
  digests of the single items, each over \<^verbatim>\<open>dataHash\<close> (empty if absent), \<^verbatim>\<open>data\<close>,
  \<^verbatim>\<open>encryptedDataEncryptionKey\<close> and \<^verbatim>\<open>iv\<close>. The nonce digest in the header hash is the
  returned \<^verbatim>\<open>requesterNonce\<close>, the base64 text of the hash of the fresh random nonce.
\<close>

theorem request_digest_signed:
  assumes "snd (generate_client_signature cp self input_json_str worker pk sk siv esk dk dv)
             = Inr (self', Some signed)"
  shows "\<exists>params. py_getitem signed ''params'' = Inr params
     \<and> py_getitem params ''requesterSignature''
         = Inr (JStr (base64_text cp (SignMessage cp pk (request_digest cp params))))
     \<and> py_getitem params ''encryptedRequestHash''
         = Inr (JStr (hex_str (encrypt_data cp (request_digest cp params) (Some sk) (Some siv))))
     \<and> py_getitem params ''requesterNonce''
         = Inr (JStr (base64_text cp
              (compute_message_hash cp (random_bit_string cp NO_OF_BYTES))))
     \<and> request_digest cp params
         = compute_message_hash cp
             (header_hash cp params
                (base64_text cp
                   (compute_message_hash cp (random_bit_string cp NO_OF_BYTES)))
              @ concat (map (item_sub_hash cp) (field_items params ''inData''))
              @ concat (map (item_sub_hash cp) (field_items params ''outData'')))"
proof -
  from generate_client_signature_Some [OF assms]
  have "snd (sign_request cp self input_json_str worker pk sk siv esk dk dv) = Inr (self', signed)"
    by simp
  from sign_request_success [OF this] show ?thesis
    by (auto simp: request_digest_def item_hash_def field_bytes_def)
qed

theorem request_digest_signed_witness:
  "snd (generate_client_signature plain_crypto new_client (Parses example_request) sha_worker ()
          ''sk'' ''si'' ''ek'' None None)
     = Inr (\<lparr>private_key = Some (), public_key = Some ''pub'', tcs_worker = sha_config\<rparr>,
            Some example_signed)
   \<and> py_getitem example_signed ''params'' = Inr example_signed_params
   \<and> py_getitem example_signed_params ''requesterSignature''
       = Inr (JStr (request_digest plain_crypto example_signed_params))
   \<and> request_digest plain_crypto example_signed_params
       = ''<<<rrrrrrrrrrrrrrrr>wowkwlrq><hbai><b-><>>''"
  using request_digest_signed [OF example_request_signed] example_request_signed
  by (simp add: example_signed_def example_signed_params_def request_digest_def header_hash_def
        item_hash_def item_sub_hash_def field_bytes_def field_items_def plain_crypto_def)

section \<open>The verifier\<close>

lemma verify_after_checks:
  assumes "passes_error_checks self worker input_json result"
  shows "verify_signature cp self (Parses input_json) worker =
     bnd (lift (response_final_hash cp result)) (\<lambda>(signature, final_hash).
       (case SIG_PublicKey cp (worker_typedata_verification_key worker) of
          None \<Rightarrow>
            bnd (logger INFO ''Error in verification key : %s'' [AExc])
              (\<lambda>u. ret INVALID_VERIFICATION_KEY)
        | Some verifying_key \<Rightarrow>
            bnd (lift (decode_signature cp signature)) (\<lambda>decoded_signature.
              ret (signature_outcome
                     (VerifySignature cp verifying_key final_hash decoded_signature)))))"
proof -
  from assms obtain kvs r where j: "input_json = JObj kvs" and r: "result = JObj r"
    by (cases input_json; cases result) (auto simp: passes_error_checks_def)
  from assms j have e: "''error'' \<notin> set (map fst kvs)" and res: "map_of kvs ''result'' = Some result"
    by (simp_all add: passes_error_checks_def map_of_eq_None_iff)
  show ?thesis
  proof (cases "map_of r ''code''")
    case None
    then have "''code'' \<notin> set (map fst r)" by (simp add: map_of_eq_None_iff)
    with assms e res show ?thesis
      unfolding verify_signature_def j r
      by (simp add: passes_error_checks_def j r del: set_map)
  next
    case (Some c)
    then have "''code'' \<in> set (map fst r)" by (metis map_of_eq_None_iff option.distinct(1) set_map)
    with assms e res Some show ?thesis
      unfolding verify_signature_def j r
      by (simp add: passes_error_checks_def j r del: set_map)
  qed
qed

lemma response_final_hash_success:
  assumes "response_final_hash cp result = Inr (signature, final_hash)"
  shows "\<exists>out sorted_out. py_getitem result ''workerSignature'' = Inr signature
     \<and> py_getitem result ''outData'' = Inr out
     \<and> py_sort_by_index out = Inr sorted_out
     \<and> final_hash = response_digest cp result sorted_out"
proof -
  from assms obtain n h1 out s h2 where n: "get_encoded result ''workerNonce'' = Inr n"
    and sg: "py_getitem result ''workerSignature'' = Inr signature"
    and h1: "calculate_hash_on_concatenated_string cp result n = Inr h1"
    and out: "py_getitem result ''outData'' = Inr out"
    and s: "py_sort_by_index out = Inr s"
    and h2: "calculate_datahash cp (JList s) = Inr h2"
    and fh: "final_hash = compute_message_hash cp (h1 @ h2)"
    unfolding response_final_hash_def Let_def
    by (auto simp: ebind_Inr_iff split: if_splits)
  from header_success [OF h1] calculate_datahash_success [OF h2] get_encoded_success [OF n] fh
  have "final_hash = response_digest cp result s" by (simp add: response_digest_def)
  with sg out s show ?thesis by blast
qed


lemma py_sort_by_index_int:
  "py_sort_by_index (JList items) = Inr sorted_out \<Longrightarrow> list_all has_int_index items
     \<Longrightarrow> sorted_out = sort_by_index items"
  by (simp add: py_sort_by_index_wf)

lemma example_response_passes:
  "passes_error_checks new_client sha_worker example_response example_result"
  by (simp add: passes_error_checks_def new_client_def sha_config_def sha_worker_def
        example_response_def example_result_def)

lemma example_response_final_hash:
  "response_final_hash plain_crypto example_result
     = Inr (JStr ''<<wnwowkwlrq><x-><hy-v>>'', ''<<wnwowkwlrq><x-><hy-v>>'')"
  by code_simp

text \<open>
  Claim C2. For a response that has passed the error checks and whose digest
  computation completes, the digest is \<open>response_digest\<close>: the hash of the
  concatenation of the base64 header hash and the item hash of \<^verbatim>\<open>outData\<close> as sorted by
  \<^verbatim>\<open>index\<close>. The nonce digest of the header hash is the \<^verbatim>\<open>workerNonce\<close> of the response
  as it stands, not a hash of it. This digest is the one handed to the signature
  primitive.
\<close>

theorem response_digest_verified:
  assumes "passes_error_checks self worker input_json result"
    and "response_final_hash cp result = Inr (signature, final_hash)"
  shows "\<exists>out sorted_out.
       py_getitem result ''outData'' = Inr out
     \<and> py_sort_by_index out = Inr sorted_out
     \<and> (\<forall>items. out = JList items \<and> list_all has_int_index items
           \<longrightarrow> sorted_out = sort_by_index items)
     \<and> final_hash = response_digest cp result sorted_out
     \<and> response_digest cp result sorted_out
         = compute_message_hash cp
             (base64_text cp (compute_message_hash cp
                (field_bytes result ''workerNonce'' @ field_bytes result ''workOrderId''
                   @ field_bytes result ''workerId'' @ field_bytes result ''workloadId''
                   @ field_bytes result ''requesterId''))
              @ concat (map (item_sub_hash cp) sorted_out))
     \<and> snd (verify_signature cp self (Parses input_json) worker)
         = (case SIG_PublicKey cp (worker_typedata_verification_key worker) of
              None \<Rightarrow> Inr INVALID_VERIFICATION_KEY
            | Some vk \<Rightarrow>
                ebind (decode_signature cp signature) (\<lambda>decoded.
                  Inr (signature_outcome
                    (VerifySignature cp vk (response_digest cp result sorted_out) decoded))))"
proof -
  from response_final_hash_success [OF assms(2)] obtain out sorted_out
    where out: "py_getitem result ''outData'' = Inr out"
      and s: "py_sort_by_index out = Inr sorted_out"
      and fh: "final_hash = response_digest cp result sorted_out"
    by blast
  have "snd (verify_signature cp self (Parses input_json) worker)
      = (case SIG_PublicKey cp (worker_typedata_verification_key worker) of
              None \<Rightarrow> Inr INVALID_VERIFICATION_KEY
            | Some vk \<Rightarrow>
                ebind (decode_signature cp signature) (\<lambda>decoded.
                  Inr (signature_outcome
                    (VerifySignature cp vk (response_digest cp result sorted_out) decoded))))"
    unfolding verify_after_checks [OF assms(1)]
    by (simp add: assms(2) fh snd_bnd ebind_def split: option.splits sum.splits)
  with out s fh show ?thesis
    using py_sort_by_index_int [of _ sorted_out]
    by (auto simp: response_digest_def header_hash_def item_hash_def)
qed

theorem response_digest_verified_witness:
  "passes_error_checks new_client sha_worker example_response example_result
   \<and> response_final_hash plain_crypto example_result
       = Inr (JStr ''<<wnwowkwlrq><x-><hy-v>>'', ''<<wnwowkwlrq><x-><hy-v>>'')
   \<and> snd (verify_signature plain_crypto new_client (Parses example_response) sha_worker) = Inr PASSED"
  using response_digest_verified [OF example_response_passes example_response_final_hash]
    example_response_passes example_response_final_hash
  by (auto simp: plain_crypto_def sha_worker_def decode_signature_def signature_outcome_def)

lemma datahash_loop_VerifySignature:
  "datahash_loop (cp\<lparr>VerifySignature := f\<rparr>) xs acc = datahash_loop cp xs acc"
  by (induction xs arbitrary: acc) (simp_all add: item_digest_def)

lemma response_final_hash_VerifySignature:
  "response_final_hash (cp\<lparr>VerifySignature := f\<rparr>) result = response_final_hash cp result"
  by (simp add: response_final_hash_def calculate_hash_on_concatenated_string_def
        calculate_datahash_def datahash_loop_VerifySignature)

lemma verify_without_key:
  assumes "SIG_PublicKey cp (worker_typedata_verification_key worker) = None"
  shows "snd (verify_signature cp self (Parses input_json) worker)
           \<notin> {Inr PASSED, Inr FAILED, Inr INVALID_SIGNATURE_FORMAT}"
    and "verify_signature (cp\<lparr>VerifySignature := f\<rparr>) self (Parses input_json) worker
           = verify_signature cp self (Parses input_json) worker"
proof -
  show "snd (verify_signature cp self (Parses input_json) worker)
           \<notin> {Inr PASSED, Inr FAILED, Inr INVALID_SIGNATURE_FORMAT}"
    using assms
    by (auto simp: verify_signature_def snd_bnd split: sum.splits prod.splits)
  show "verify_signature (cp\<lparr>VerifySignature := f\<rparr>) self (Parses input_json) worker
           = verify_signature cp self (Parses input_json) worker"
    using assms
    by (simp add: verify_signature_def response_final_hash_VerifySignature bnd_def
          split: sum.splits prod.splits)
qed

lemma verify_error_response:
  assumes "HashingAlgorithm (tcs_worker self) = hashing_algorithm worker"
    and "SigningAlgorithm (tcs_worker self) = signing_algorithm worker"
    and "input_json = JObj kvs"
    and "map_of kvs ''error'' \<noteq> None
         \<or> (\<exists>r c. map_of kvs ''result'' = Some (JObj r) \<and> map_of r ''code'' = Some (JInt c) \<and> c < 0)"
  shows "verify_signature cp self (Parses input_json) worker = ([], Inr ERROR_RESPONSE)"
proof (cases "map_of kvs ''error''")
  case (Some e)
  then have "''error'' \<in> set (map fst kvs)"
    by (metis map_of_eq_None_iff option.distinct(1) set_map)
  with assms(1-3) show ?thesis by (simp add: verify_signature_def del: set_map)
next
  case None
  then have e: "''error'' \<notin> set (map fst kvs)" by (simp add: map_of_eq_None_iff)
  from None assms(4) obtain r c where r: "map_of kvs ''result'' = Some (JObj r)"
    and c: "map_of r ''code'' = Some (JInt c)" "c < 0" by auto
  from c(1) have "''code'' \<in> set (map fst r)"
    by (metis map_of_eq_None_iff option.distinct(1) set_map)
  with assms(1-3) e r c show ?thesis by (simp add: verify_signature_def del: set_map)
qed

text \<open>
  Claim C5. With the algorithms of the worker being the configured ones, a response
  that carries an \<^verbatim>\<open>error\<close> member, or whose \<^verbatim>\<open>result\<close> carries a negative \<^verbatim>\<open>code\<close>, yields
  \<^verbatim>\<open>ERROR_RESPONSE\<close>, whatever its other fields hold. The provider is arbitrary and
  nothing is logged: no key is constructed and no signature is checked.
\<close>

theorem error_response_returned:
  assumes "HashingAlgorithm (tcs_worker self) = hashing_algorithm worker"
    and "SigningAlgorithm (tcs_worker self) = signing_algorithm worker"
    and "input_json = JObj kvs"
    and "map_of kvs ''error'' \<noteq> None
         \<or> (\<exists>r c. map_of kvs ''result'' = Some (JObj r) \<and> map_of r ''code'' = Some (JInt c) \<and> c < 0)"
  shows "verify_signature cp self (Parses input_json) worker = ([], Inr ERROR_RESPONSE)"
  using assms by (rule verify_error_response)

theorem error_response_returned_witness:
  "HashingAlgorithm (tcs_worker new_client) = hashing_algorithm sha_worker
   \<and> SigningAlgorithm (tcs_worker new_client) = signing_algorithm sha_worker
   \<and> py_contains ''error'' response_with_error = Inr True
   \<and> verify_signature plain_crypto new_client (Parses response_with_error) sha_worker
       = ([], Inr ERROR_RESPONSE)
   \<and> ebind (py_getitem response_with_negative_code ''result'') (\<lambda>r. py_getitem r ''code'')
       = Inr (JInt (- 1))
   \<and> verify_signature plain_crypto new_client (Parses response_with_negative_code) sha_worker
       = ([], Inr ERROR_RESPONSE)"
proof -
  have a: "HashingAlgorithm (tcs_worker new_client) = hashing_algorithm sha_worker"
    and b: "SigningAlgorithm (tcs_worker new_client) = signing_algorithm sha_worker"
    by (simp_all add: new_client_def sha_config_def sha_worker_def)
  have "verify_signature plain_crypto new_client (Parses response_with_error) sha_worker
      = ([], Inr ERROR_RESPONSE)"
    by (rule error_response_returned [OF a b response_with_error_def]) simp
  moreover have "verify_signature plain_crypto new_client (Parses response_with_negative_code) sha_worker
      = ([], Inr ERROR_RESPONSE)"
    by (rule error_response_returned [OF a b response_with_negative_code_def]) simp
  ultimately show ?thesis
    using a b by (simp add: response_with_error_def response_with_negative_code_def)
qed

lemma example_response_passes_unkeyed:
  "passes_error_checks new_client unkeyed_worker example_response example_result"
  by (simp add: passes_error_checks_def new_client_def sha_config_def sha_worker_def
        unkeyed_worker_def example_response_def example_result_def)

text \<open>
  Claim C7 as stated fails: \<open>response_without_nonce\<close> passes the error checks, the
  verification key of \<open>unkeyed_worker\<close> cannot be constructed, and \<^verbatim>\<open>verify_signature\<close>
  raises \<^verbatim>\<open>KeyError\<close> at the read of \<^verbatim>\<open>workerNonce\<close> (line 295), before the key is looked
  at (line 309); it logs nothing and returns no status.
\<close>

theorem invalid_key_not_reported:
  "passes_error_checks (new_client :: unit ClientSignature) unkeyed_worker
     response_without_nonce result_without_nonce
   \<and> SIG_PublicKey plain_crypto (worker_typedata_verification_key unkeyed_worker) = None
   \<and> verify_signature plain_crypto new_client (Parses response_without_nonce) unkeyed_worker
       = ([], Inl (KeyError ''workerNonce''))"
  by code_simp

text \<open>
  Claim C7, amended. Where the verification key cannot be constructed,
  \<^verbatim>\<open>verify_signature\<close> never returns \<^verbatim>\<open>PASSED\<close>, \<^verbatim>\<open>FAILED\<close> or \<^verbatim>\<open>INVALID_SIGNATURE_FORMAT\<close> and
  its outcome does not depend on the signature primitive; for a response that has
  passed the error checks and whose digest computation completes it returns
  \<^verbatim>\<open>INVALID_VERIFICATION_KEY\<close>. Where the key is constructed and the signature decodes,
  the outcome of the primitive is mapped: 1 to \<^verbatim>\<open>PASSED\<close>, 0 to \<^verbatim>\<open>FAILED\<close>, any other
  value to \<^verbatim>\<open>INVALID_SIGNATURE_FORMAT\<close>.
\<close>

theorem verification_key_outcomes:
  "(SIG_PublicKey cp (worker_typedata_verification_key worker) = None \<longrightarrow>
      snd (verify_signature cp self (Parses input_json) worker)
        \<notin> {Inr PASSED, Inr FAILED, Inr INVALID_SIGNATURE_FORMAT}
      \<and> verify_signature (cp\<lparr>VerifySignature := f\<rparr>) self (Parses input_json) worker
          = verify_signature cp self (Parses input_json) worker)
   \<and> (passes_error_checks self worker input_json result
        \<and> response_final_hash cp result = Inr (signature, final_hash)
        \<and> SIG_PublicKey cp (worker_typedata_verification_key worker) = None \<longrightarrow>
      snd (verify_signature cp self (Parses input_json) worker) = Inr INVALID_VERIFICATION_KEY)
   \<and> (passes_error_checks self worker input_json result
        \<and> response_final_hash cp result = Inr (signature, final_hash)
        \<and> SIG_PublicKey cp (worker_typedata_verification_key worker) = Some vk
        \<and> decode_signature cp signature = Inr decoded \<longrightarrow>
      snd (verify_signature cp self (Parses input_json) worker)
        = Inr (if VerifySignature cp vk final_hash decoded = 1 then PASSED
               else if VerifySignature cp vk final_hash decoded = 0 then FAILED
               else INVALID_SIGNATURE_FORMAT))"
  using verify_without_key
          [where cp = cp and worker = worker and self = self and input_json = input_json]
  by (auto simp: verify_after_checks snd_bnd signature_outcome_def)

theorem verification_key_outcomes_witness:
  "passes_error_checks new_client unkeyed_worker example_response example_result
   \<and> passes_error_checks new_client sha_worker example_response example_result
   \<and> response_final_hash plain_crypto example_result
       = Inr (JStr ''<<wnwowkwlrq><x-><hy-v>>'', ''<<wnwowkwlrq><x-><hy-v>>'')
   \<and> SIG_PublicKey plain_crypto (worker_typedata_verification_key unkeyed_worker) = None
   \<and> snd (verify_signature plain_crypto new_client (Parses example_response) unkeyed_worker)
       = Inr INVALID_VERIFICATION_KEY
   \<and> SIG_PublicKey plain_crypto (worker_typedata_verification_key sha_worker) = Some ()
   \<and> decode_signature plain_crypto (JStr ''<<wnwowkwlrq><x-><hy-v>>'')
       = Inr ''<<wnwowkwlrq><x-><hy-v>>''
   \<and> snd (verify_signature plain_crypto new_client (Parses example_response) sha_worker) = Inr PASSED"
proof -
  let ?s = "''<<wnwowkwlrq><x-><hy-v>>''"
  have k0: "SIG_PublicKey plain_crypto (worker_typedata_verification_key unkeyed_worker) = None"
    by (simp add: plain_crypto_def unkeyed_worker_def)
  have k1: "SIG_PublicKey plain_crypto (worker_typedata_verification_key sha_worker) = Some ()"
    by (simp add: plain_crypto_def sha_worker_def)
  have d: "decode_signature plain_crypto (JStr ?s) = Inr ?s"
    by (simp add: decode_signature_def plain_crypto_def)
  have v: "VerifySignature plain_crypto () ?s ?s = 1"
    by (simp add: plain_crypto_def)
  from verification_key_outcomes
         [where cp = plain_crypto and worker = unkeyed_worker and self = new_client
            and input_json = example_response and result = example_result
            and signature = "JStr ?s" and final_hash = ?s]
       example_response_passes_unkeyed example_response_final_hash k0
  have r0: "snd (verify_signature plain_crypto new_client (Parses example_response) unkeyed_worker)
              = Inr INVALID_VERIFICATION_KEY"
    by blast
  from verification_key_outcomes
         [where cp = plain_crypto and worker = sha_worker and self = new_client
            and input_json = example_response and result = example_result
            and signature = "JStr ?s" and final_hash = ?s and vk = "()" and decoded = ?s]
       example_response_passes example_response_final_hash k1 d
  have r1: "snd (verify_signature plain_crypto new_client (Parses example_response) sha_worker)
              = Inr PASSED"
    by (auto simp: v)
  from example_response_passes example_response_passes_unkeyed example_response_final_hash
    k0 k1 d r0 r1
  show ?thesis by blast
qed

lemma response_final_hash_wf:
  assumes "wf_result cp worker result"
  shows "\<exists>signature final_hash. py_getitem result ''workerSignature'' = Inr signature
           \<and> response_final_hash cp result = Inr (signature, final_hash)"
proof -
  from assms obtain signature where sg: "py_getitem result ''workerSignature'' = Inr signature"
    by (auto simp: wf_result_def wf_signature_def split: sum.splits)
  from assms obtain items where out: "py_getitem result ''outData'' = Inr (JList items)"
    and items: "list_all wf_item items"
    by (auto simp: wf_result_def wf_items_def split: sum.splits json.splits)
  from assms have n: "get_encoded result ''workerNonce'' = Inr (field_bytes result ''workerNonce'')"
    and h: "wf_header result"
    by (simp_all add: wf_result_def get_encoded_wf)
  have "ascii_text (header_hash cp result (field_bytes result ''workerNonce'')
                      @ item_hash cp (sort_by_index items))"
    by (simp add: ascii_append ascii_header_hash ascii_item_hash)
  then have "response_final_hash cp result
      = Inr (signature, response_digest cp result (sort_by_index items))"
    by (simp add: response_final_hash_def n sg header_wf [OF h] out ascii_no_surrogate
          py_sort_by_index_wf [OF wf_item_has_int_index [OF items]]
          calculate_datahash_wf [OF wf_item_sorted [OF items]] response_digest_def)
  with sg show ?thesis by blast
qed

lemma verify_wf_result:
  assumes "passes_error_checks self worker input_json result"
    and "wf_result cp worker result"
  shows "\<exists>status. snd (verify_signature cp self (Parses input_json) worker) = Inr status"
proof -
  from response_final_hash_wf [OF assms(2)] obtain signature final_hash
    where sg: "py_getitem result ''workerSignature'' = Inr signature"
      and fh: "response_final_hash cp result = Inr (signature, final_hash)" by blast
  show ?thesis
  proof (cases "SIG_PublicKey cp (worker_typedata_verification_key worker)")
    case None
    then show ?thesis by (simp add: verify_after_checks [OF assms(1)] fh snd_bnd)
  next
    case (Some vk)
    with assms(2) sg obtain s b where "signature = JStr s" "base64_to_byte_array cp s = Some b"
      by (auto simp: wf_result_def wf_signature_def split: json.splits)
    then have "decode_signature cp signature = Inr b" by (simp add: decode_signature_def)
    with Some show ?thesis by (simp add: verify_after_checks [OF assms(1)] fh snd_bnd)
  qed
qed

lemma int_key_not_negative: "is_int_key c \<Longrightarrow> \<not> int_of_key c < 0 \<Longrightarrow> py_lt_zero c = Inr False"
  by (cases c) auto

lemma int_key_negative: "is_int_key c \<Longrightarrow> int_of_key c < 0 \<Longrightarrow> \<exists>i. c = JInt i \<and> i < 0"
  by (cases c) (auto split: if_splits)

lemma verify_wf_response:
  assumes "HashingAlgorithm (tcs_worker self) = hashing_algorithm worker"
    and "SigningAlgorithm (tcs_worker self) = signing_algorithm worker"
    and "wf_response cp worker input_json"
  shows "\<exists>status. snd (verify_signature cp self (Parses input_json) worker) = Inr status"
proof -
  from assms(3) obtain kvs where j: "input_json = JObj kvs"
    by (cases input_json) (auto simp: wf_response_def)
  show ?thesis
  proof (cases "map_of kvs ''error''")
    case (Some e)
    with verify_error_response [OF assms(1,2) j, of cp] show ?thesis by simp
  next
    case None
    with assms(3) j obtain r where r: "map_of kvs ''result'' = Some (JObj r)"
      and rest: "(case map_of r ''code'' of
                     None \<Rightarrow> wf_result cp worker (JObj r)
                   | Some c \<Rightarrow>
                       is_int_key c \<and> (int_of_key c < 0 \<or> wf_result cp worker (JObj r)))"
      by (auto simp: wf_response_def split: option.splits json.splits)
    show ?thesis
    proof (cases "map_of r ''code''")
      case no_code: None
      with assms(1,2) j None r have "passes_error_checks self worker input_json (JObj r)"
        by (simp add: passes_error_checks_def)
      moreover from rest no_code have "wf_result cp worker (JObj r)" by simp
      ultimately show ?thesis by (rule verify_wf_result)
    next
      case (Some c)
      with rest have c: "is_int_key c" and alt: "int_of_key c < 0 \<or> wf_result cp worker (JObj r)"
        by simp_all
      show ?thesis
      proof (cases "int_of_key c < 0")
        case True
        from int_key_negative [OF c True] Some r
        have "\<exists>r c. map_of kvs ''result'' = Some (JObj r) \<and> map_of r ''code'' = Some (JInt c) \<and> c < 0"
          by blast
        with verify_error_response [OF assms(1,2) j, of cp] show ?thesis by simp
      next
        case False
        with assms(1,2) j None r Some int_key_not_negative [OF c False]
        have "passes_error_checks self worker input_json (JObj r)"
          by (simp add: passes_error_checks_def)
        moreover from alt False have "wf_result cp worker (JObj r)" by simp
        ultimately show ?thesis by (rule verify_wf_result)
      qed
    qed
  qed
qed

lemma verify_algorithm_mismatch:
  assumes "HashingAlgorithm (tcs_worker self) \<noteq> hashing_algorithm worker
           \<or> SigningAlgorithm (tcs_worker self) \<noteq> signing_algorithm worker"
  shows "snd (verify_signature cp self (Parses input_json) worker) = Inr ERROR_RESPONSE"
  using assms by (auto simp: verify_signature_def)

lemma example_response_wf: "wf_response plain_crypto sha_worker example_response"
  by code_simp

lemma verify_not_json: "verify_signature cp self NotJson worker = ([], Inl JSONDecodeError)"
  by (simp add: verify_signature_def)

text \<open>
  Claim C6 as stated fails. On a response that is not JSON text, \<^verbatim>\<open>json.loads\<close> raises at
  line 275, before anything else is done (\<open>verify_not_json\<close>: for every provider,
  instance and worker). On \<open>response_without_nonce\<close>, whose result has no \<^verbatim>\<open>workerNonce\<close>,
  the read at line 295 raises \<^verbatim>\<open>KeyError\<close>. In both cases \<^verbatim>\<open>verify_signature\<close> returns no
  status.
\<close>

theorem verify_signature_raises:
  "verify_signature plain_crypto (new_client :: unit ClientSignature) NotJson sha_worker
     = ([], Inl JSONDecodeError)
   \<and> verify_signature plain_crypto (new_client :: unit ClientSignature)
         (Parses response_without_nonce) sha_worker
       = ([], Inl (KeyError ''workerNonce''))"
proof -
  have "verify_signature plain_crypto (new_client :: unit ClientSignature)
          (Parses response_without_nonce) sha_worker
          = ([], Inl (KeyError ''workerNonce''))"
    by code_simp
  then show ?thesis by (simp add: verify_not_json)
qed

text \<open>
  Claim C6, amended. On a response that is JSON text, \<^verbatim>\<open>verify_signature\<close> returns
  exactly one status, and raises nothing, whenever an algorithm of the worker differs
  from the configured one, and whenever the value of the text is a well-formed response
  (\<open>wf_response\<close>): a dict with an \<^verbatim>\<open>error\<close> member, or whose \<^verbatim>\<open>result\<close> is a dict with a
  negative integer \<^verbatim>\<open>code\<close>, or with no \<^verbatim>\<open>code\<close> or a non-negative integer one and with all
  the fields the digest computation reads, the strings among them without surrogates.
  A value it returns is always one of the five of the enumeration.
\<close>

theorem verify_signature_returns_status:
  assumes "HashingAlgorithm (tcs_worker self) \<noteq> hashing_algorithm worker
           \<or> SigningAlgorithm (tcs_worker self) \<noteq> signing_algorithm worker
           \<or> wf_response cp worker input_json"
  shows "\<exists>status. snd (verify_signature cp self (Parses input_json) worker) = Inr status
           \<and> status \<in> {ERROR_RESPONSE, INVALID_VERIFICATION_KEY, PASSED, FAILED,
                          INVALID_SIGNATURE_FORMAT}"
proof -
  have "\<exists>status. snd (verify_signature cp self (Parses input_json) worker) = Inr status"
  proof (cases "HashingAlgorithm (tcs_worker self) = hashing_algorithm worker
                \<and> SigningAlgorithm (tcs_worker self) = signing_algorithm worker")
    case True
    with assms verify_wf_response show ?thesis by blast
  next
    case False
    with verify_algorithm_mismatch [of self worker cp input_json] show ?thesis by blast
  qed
  then obtain status where s: "snd (verify_signature cp self (Parses input_json) worker) = Inr status"
    by blast
  have "status \<in> {ERROR_RESPONSE, INVALID_VERIFICATION_KEY, PASSED, FAILED,
                   INVALID_SIGNATURE_FORMAT}"
    by (cases status) simp_all
  with s show ?thesis by blast
qed

theorem verify_signature_returns_status_witness:
  "wf_response plain_crypto sha_worker example_response
   \<and> snd (verify_signature plain_crypto new_client (Parses example_response) sha_worker) = Inr PASSED
   \<and> HashingAlgorithm (tcs_worker new_client) \<noteq> hashing_algorithm (sha_worker\<lparr>hashing_algorithm := ''MD5''\<rparr>)
   \<and> snd (verify_signature plain_crypto new_client (Parses response_without_nonce)
             (sha_worker\<lparr>hashing_algorithm := ''MD5''\<rparr>)) = Inr ERROR_RESPONSE"
proof -
  have m: "HashingAlgorithm (tcs_worker new_client)
             \<noteq> hashing_algorithm (sha_worker\<lparr>hashing_algorithm := ''MD5''\<rparr>)"
    by (simp add: new_client_def sha_config_def)
  from verify_signature_returns_status
         [where self = new_client and worker = sha_worker and cp = plain_crypto
            and input_json = example_response]
       example_response_wf
  obtain s1 where s1: "snd (verify_signature plain_crypto new_client (Parses example_response) sha_worker) = Inr s1"
    by blast
  have "snd (verify_signature plain_crypto new_client (Parses example_response) sha_worker) = Inr PASSED"
    by code_simp
  moreover
  from verify_signature_returns_status
         [where self = new_client and worker = "sha_worker\<lparr>hashing_algorithm := ''MD5''\<rparr>"
            and cp = plain_crypto and input_json = response_without_nonce] m
  obtain s2 where "snd (verify_signature plain_crypto new_client (Parses response_without_nonce)
             (sha_worker\<lparr>hashing_algorithm := ''MD5''\<rparr>)) = Inr s2" by blast
  moreover have "snd (verify_signature plain_crypto new_client (Parses response_without_nonce)
             (sha_worker\<lparr>hashing_algorithm := ''MD5''\<rparr>)) = Inr ERROR_RESPONSE"
    using m by (intro verify_algorithm_mismatch disjI1)
  ultimately show ?thesis using example_response_wf m s1 by simp
qed

section \<open>The validator\<close>

lemma check_param_pool_dict:
  "check_param_pool pool (JObj ps) valid =
     (map missing_field_record (filter (\<lambda>name. py_contains name (JObj ps) \<noteq> Inr True) pool),
      Inr (valid \<and> filter (\<lambda>name. py_contains name (JObj ps) \<noteq> Inr True) pool = []))"
  by (induction pool arbitrary: valid) (auto simp: missing_field_record_def)

lemma indata_defect_dict: "is_dict item \<Longrightarrow> indata_defect item = Inr (\<not> item_complete item)"
  by (cases item)
     (auto simp: indata_defect_def item_complete_def map_of_eq_None_iff [symmetric]
        simp del: map_of_eq_None_iff split: option.splits)

lemma check_indata_dicts:
  "list_all is_dict items \<Longrightarrow>
   check_indata items valid =
     (map (\<lambda>item. indata_record) (filter (\<lambda>item. \<not> item_complete item) items),
      Inr (valid \<and> list_all item_complete items))"
  by (induction items arbitrary: valid) (auto simp: indata_defect_dict indata_record_def)


lemma payload_json_check_no_params:
  assumes "data = JObj kvs" and "map_of kvs ''params'' = None"
  shows "payload_json_check (Parses data) = ([no_params_record], Inr False)"
proof -
  from assms(2) have "''params'' \<notin> set (map fst kvs)" by (simp add: map_of_eq_None_iff)
  then show ?thesis
    by (simp add: payload_json_check_def assms(1) no_params_record_def del: set_map)
qed

lemma payload_json_check_params:
  assumes "data = JObj kvs" and "map_of kvs ''params'' = Some params" and "shaped_params params"
  shows "payload_json_check (Parses data) =
     (if missing_fields params \<noteq> []
      then (map missing_field_record (missing_fields params), Inr False)
      else (map (\<lambda>item. indata_record)
              (filter (\<lambda>item. \<not> item_complete item) (field_items params ''inData'')),
            Inr (list_all item_complete (field_items params ''inData''))))"
proof -
  from assms(3) obtain ps where ps: "params = JObj ps"
    by (cases params) (auto simp: shaped_params_def)
  from assms(2) have c: "''params'' \<in> set (map fst kvs)"
    by (metis map_of_eq_None_iff option.distinct(1) set_map)
  have start: "payload_json_check (Parses data) =
      bnd (check_param_pool param_pool params True) (\<lambda>param_valid.
           if param_valid then
             bnd (lift (py_getitem params ''inData'')) (\<lambda>i_obj.
             bnd (lift (py_iter i_obj)) (\<lambda>objs.
               check_indata objs param_valid))
           else ret param_valid)"
    using c by (simp add: payload_json_check_def assms(1,2) del: set_map)
  show ?thesis
  proof (cases "missing_fields params = []")
    case False
    then show ?thesis
      by (simp add: start ps check_param_pool_dict missing_fields_def)
  next
    case True
    then have "\<forall>name \<in> set param_pool. py_contains name params = Inr True"
      by (simp add: missing_fields_def filter_empty_conv)
    then have "py_contains ''inData'' params = Inr True"
      by (simp add: param_pool_def)
    then obtain v where v: "map_of ps ''inData'' = Some v"
      by (auto simp: ps contains_JObj simp del: py_contains.simps)
    with assms(3) ps obtain items where items: "v = JList items" "list_all is_dict items"
      by (cases v) (auto simp: shaped_params_def)
    from True show ?thesis
      by (simp add: start ps check_param_pool_dict missing_fields_def v items
            check_indata_dicts field_items_def)
  qed
qed

text \<open>
  Claim C8 as stated fails: the validator raises \<^verbatim>\<open>TypeError\<close> on a request whose
  \<^verbatim>\<open>inData\<close> holds a number, at \<^verbatim>\<open>'data' not in obj\<close>; and on a request without
  \<^verbatim>\<open>params\<close> it logs one record and returns at once, not one record for each of the
  mandatory fields.
\<close>

theorem validator_raises_or_stops:
  "snd (payload_json_check (Parses request_with_number_item)) = Inl TypeError
   \<and> payload_json_check (Parses (JObj [(''jsonrpc'', JStr ''2.0''), (''id'', JInt 11)]))
       = ([no_params_record], Inr False)"
  by (simp add: payload_json_check_def request_with_number_item_def param_pool_def
        indata_defect_def no_params_record_def)

text \<open>
  Claim C8, amended. On a request of the expected shape (a dict whose \<^verbatim>\<open>params\<close>, when
  present, is a dict whose \<^verbatim>\<open>inData\<close>, when present, is a list of dicts) the validator
  returns a boolean and raises nothing. It returns true exactly when \<^verbatim>\<open>params\<close> is
  present, none of the five mandatory fields is missing from it and every item of
  \<^verbatim>\<open>inData\<close> has a present, non-empty \<^verbatim>\<open>data\<close> and a present \<^verbatim>\<open>index\<close>. Without \<^verbatim>\<open>params\<close>
  it logs one record; with \<^verbatim>\<open>params\<close> it logs one record for each missing mandatory
  field, in the order of the pool, without stopping at the first; with no field
  missing it logs one record for each defective item.
\<close>

theorem validator_characterised:
  assumes "shaped_request data"
  shows "payload_json_check (Parses data) =
     (case py_getitem data ''params'' of
        Inl e \<Rightarrow> ([no_params_record], Inr False)
      | Inr params \<Rightarrow>
          if missing_fields params \<noteq> []
          then (map missing_field_record (missing_fields params), Inr False)
          else (map (\<lambda>item. indata_record)
                  (filter (\<lambda>item. \<not> item_complete item) (field_items params ''inData'')),
                Inr (list_all item_complete (field_items params ''inData''))))
    \<and> (snd (payload_json_check (Parses data)) = Inr True \<or> snd (payload_json_check (Parses data)) = Inr False)
    \<and> (snd (payload_json_check (Parses data)) = Inr True \<longleftrightarrow>
           (\<exists>params. py_getitem data ''params'' = Inr params \<and> missing_fields params = []
              \<and> list_all item_complete (field_items params ''inData'')))"
proof -
  from assms obtain kvs where d: "data = JObj kvs"
    by (cases data) (auto simp: shaped_request_def)
  have eq: "payload_json_check (Parses data) =
     (case py_getitem data ''params'' of
        Inl e \<Rightarrow> ([no_params_record], Inr False)
      | Inr params \<Rightarrow>
          if missing_fields params \<noteq> []
          then (map missing_field_record (missing_fields params), Inr False)
          else (map (\<lambda>item. indata_record)
                  (filter (\<lambda>item. \<not> item_complete item) (field_items params ''inData'')),
                Inr (list_all item_complete (field_items params ''inData''))))"
  proof (cases "map_of kvs ''params''")
    case None
    with payload_json_check_no_params [OF d None] show ?thesis by (simp add: d)
  next
    case (Some params)
    with assms d have "shaped_params params" by (simp add: shaped_request_def)
    from payload_json_check_params [OF d Some this] Some show ?thesis by (simp add: d)
  qed
  have "snd (payload_json_check (Parses data)) = Inr True \<longleftrightarrow>
           (\<exists>params. py_getitem data ''params'' = Inr params \<and> missing_fields params = []
              \<and> list_all item_complete (field_items params ''inData''))"
    unfolding eq by (auto split: sum.splits)
  moreover
  have "snd (payload_json_check (Parses data)) = Inr True \<or> snd (payload_json_check (Parses data)) = Inr False"
    unfolding eq by (auto split: sum.splits)
  ultimately show ?thesis using eq by blast
qed

lemma shaped_examples:
  "shaped_request request_missing_two" "shaped_request request_with_empty_data"
  "shaped_request example_request"
  by (simp_all add: shaped_request_def shaped_params_def request_missing_two_def
        request_with_empty_data_def example_request_def)

theorem validator_characterised_witness:
  "shaped_request request_missing_two
   \<and> payload_json_check (Parses request_missing_two)
       = ([missing_field_record ''requesterNonce'', missing_field_record ''requesterId''],
          Inr False)
   \<and> shaped_request request_with_empty_data
   \<and> payload_json_check (Parses request_with_empty_data) = ([indata_record], Inr False)
   \<and> shaped_request example_request
   \<and> payload_json_check (Parses example_request) = ([], Inr True)"
proof -
  have "payload_json_check (Parses request_missing_two)
       = ([missing_field_record ''requesterNonce'', missing_field_record ''requesterId''],
          Inr False)"
    using validator_characterised [OF shaped_examples(1)]
    by (simp add: request_missing_two_def missing_fields_def param_pool_def)
  moreover have "payload_json_check (Parses request_with_empty_data) = ([indata_record], Inr False)"
    using validator_characterised [OF shaped_examples(2)]
    by (simp add: request_with_empty_data_def missing_fields_def param_pool_def
          field_items_def item_complete_def)
  moreover have "payload_json_check (Parses example_request) = ([], Inr True)"
    using validator_characterised [OF shaped_examples(3)]
    by (simp add: example_request_def missing_fields_def param_pool_def
          field_items_def item_complete_def)
  ultimately show ?thesis using shaped_examples by simp
qed

lemma sort_by_index_permuted:
  assumes "mset ys = mset xs"
    and "distinct (map (\<lambda>x. int_of_key (index_key x)) xs)"
  shows "sort_by_index ys = sort_by_index xs"
proof -
  from assms(2) have "inj_on (\<lambda>x. int_of_key (index_key x)) (set xs)"
    by (simp add: distinct_map)
  with assms(1) have inj: "inj_on (\<lambda>x. int_of_key (index_key x)) (set ys)"
    by (metis mset_eq_setD)
  have "mset ys = mset (sort_key (\<lambda>x. int_of_key (index_key x)) xs)"
    by (simp add: assms(1))
  moreover note inj
  moreover have "sorted (map (\<lambda>x. int_of_key (index_key x))
                           (sort_key (\<lambda>x. int_of_key (index_key x)) xs))"
    by simp
  ultimately show ?thesis
    unfolding sort_by_index_def by (rule sort_key_inj_key_eq)
qed

text \<open>
  Claim C9 as stated fails: the sort is stable, so two items with the same \<^verbatim>\<open>index\<close>
  stay in the order of the input, and the two orders of \<open>item_x\<close> and \<open>item_y\<close> hash
  to different strings.
\<close>

theorem permuted_equal_indices_differ:
  "mset [item_y, item_x] = mset [item_x, item_y]
   \<and> sorted_item_hash plain_crypto [item_x, item_y] = Inr ''<x-><y->''
   \<and> sorted_item_hash plain_crypto [item_y, item_x] = Inr ''<y-><x->''"
  by (simp add: sorted_item_hash_def py_sort_by_index_def index_key_def item_x_def item_y_def
        calculate_datahash_def item_digest_def get_encoded_def get_encoded_if_present_def
        plain_crypto_def add.commute)

text \<open>
  Claim C9, amended. For every list of data items whose \<^verbatim>\<open>index\<close> values are integers
  and pairwise distinct, and every permutation of it, sorting by \<^verbatim>\<open>index\<close> and hashing
  the items gives the same result for both: the same sorted list, and the same digest
  string (the item hash of that list) when every item has its string fields, or the
  same exception.
\<close>

theorem permuted_items_same_hash:
  assumes "mset ys = mset xs"
    and "list_all has_int_index xs"
    and "distinct (map (\<lambda>x. int_of_key (index_key x)) xs)"
  shows "py_sort_by_index (JList ys) = py_sort_by_index (JList xs)
     \<and> sorted_item_hash cp ys = sorted_item_hash cp xs
     \<and> (list_all wf_item xs \<longrightarrow> sorted_item_hash cp ys = Inr (item_hash cp (sort_by_index xs)))"
proof -
  from assms(1,2) have "list_all has_int_index ys"
    by (metis list_all_iff mset_eq_setD)
  then have "py_sort_by_index (JList ys) = Inr (sort_by_index ys)"
    by (rule py_sort_by_index_wf)
  moreover have "py_sort_by_index (JList xs) = Inr (sort_by_index xs)"
    using assms(2) by (rule py_sort_by_index_wf)
  moreover have "sort_by_index ys = sort_by_index xs"
    using assms(1,3) by (rule sort_by_index_permuted)
  ultimately have s: "py_sort_by_index (JList ys) = py_sort_by_index (JList xs)"
    by simp
  then have h: "sorted_item_hash cp ys = sorted_item_hash cp xs"
    by (simp add: sorted_item_hash_def)
  have "sorted_item_hash cp xs = Inr (item_hash cp (sort_by_index xs))" if "list_all wf_item xs"
    using py_sort_by_index_wf [OF assms(2)] calculate_datahash_wf [OF wf_item_sorted [OF that]]
    by (simp add: sorted_item_hash_def)
  with s h show ?thesis by simp
qed

theorem permuted_items_same_hash_witness:
  "mset [item_z, item_x] = mset [item_x, item_z]
   \<and> list_all has_int_index [item_x, item_z]
   \<and> distinct (map (\<lambda>x. int_of_key (index_key x)) [item_x, item_z])
   \<and> sorted_item_hash plain_crypto [item_z, item_x] = Inr ''<x-><z->''
   \<and> sorted_item_hash plain_crypto [item_x, item_z] = Inr ''<x-><z->''"
proof -
  have a: "mset [item_z, item_x] = mset [item_x, item_z]" by (simp add: add.commute)
  have b: "list_all has_int_index [item_x, item_z]"
    by (simp add: has_int_index_def item_x_def item_z_def)
  have c: "distinct (map (\<lambda>x. int_of_key (index_key x)) [item_x, item_z])"
    by (simp add: index_key_def item_x_def item_z_def)
  have d: "sorted_item_hash plain_crypto [item_x, item_z] = Inr ''<x-><z->''"
    by (simp add: sorted_item_hash_def py_sort_by_index_def index_key_def item_x_def item_z_def
          calculate_datahash_def item_digest_def get_encoded_def get_encoded_if_present_def
          plain_crypto_def)
  from permuted_items_same_hash [OF a b c, of plain_crypto] d
  have "sorted_item_hash plain_crypto [item_z, item_x] = Inr ''<x-><z->''" by simp
  with a b c d show ?thesis by blast
qed

section \<open>Signing a well-formed request\<close>

lemma getitem_KeyError_is_dict: "py_getitem p k = Inl (KeyError k') \<Longrightarrow> is_dict p"
  by (cases p) auto

lemma contains_dict: "is_dict p \<Longrightarrow> py_contains k p = Inr (\<exists>v. py_getitem p k = Inr v)"
  by (cases p) (auto simp: contains_JObj simp del: py_contains.simps split: option.splits)

lemma outdata_hash_wf:
  assumes "opt_wf_items p ''outData''"
  shows "outdata_hash cp p =
           Inr (case py_getitem p ''outData'' of
                  Inr out \<Rightarrow> put ''outData'' (JList (sort_by_index (field_items p ''outData''))) p
                | Inl e \<Rightarrow> p,
                item_hash cp (sort_by_index (field_items p ''outData'')))"
proof (cases "py_getitem p ''outData''")
  case (Inl e)
  with assms obtain k' where e: "e = KeyError k'"
    by (cases e) (auto simp: opt_wf_items_def)
  with Inl have d: "is_dict p" by (auto dest: getitem_KeyError_is_dict)
  with Inl have "py_contains ''outData'' p = Inr False" by (simp add: contains_dict)
  with Inl show ?thesis
    by (simp add: outdata_hash_def field_items_def sort_by_index_def item_hash_def)
next
  case (Inr v)
  with assms obtain xs where v: "v = JList xs" and xs: "list_all wf_item xs"
    by (cases v) (auto simp: opt_wf_items_def)
  from Inr have d: "is_dict p" by (rule getitem_is_dict)
  with Inr have c: "py_contains ''outData'' p = Inr True" by (simp add: contains_dict)
  show ?thesis
    by (simp add: outdata_hash_def c Inr v setitem_put [OF d] field_items_def
          py_sort_by_index_wf [OF wf_item_has_int_index [OF xs]]
          calculate_datahash_wf [OF wf_item_sorted [OF xs]])
qed

lemma wf_header_cong:
  assumes "\<And>k. k \<in> {''workOrderId'', ''workerId'', ''workloadId'', ''requesterId''}
             \<Longrightarrow> py_getitem p' k = py_getitem p k"
  shows "wf_header p' = wf_header p"
  using assms by (simp add: wf_header_def has_str_def opt_str_def)

lemma sign_request_wf:
  assumes wf: "wf_request input_json"
  shows "snd (sign_request cp self (Parses input_json) worker pk sk siv esk dk dv)
           = Inr (self\<lparr>private_key := Some pk,
                       public_key := Some (GetPublicKey_Serialize cp pk)\<rparr>,
                  signed_request cp pk sk siv esk dk dv input_json)"
proof -
  define nh where
    "nh = base64_text cp (compute_message_hash cp (random_bit_string cp NO_OF_BYTES))"
  from wf obtain p0 where p0: "py_getitem input_json ''params'' = Inr p0"
    and h0: "wf_header p0" and i0: "wf_items p0 ''inData''" and o0: "opt_wf_items p0 ''outData''"
    by (auto simp: wf_request_def split: sum.splits)
  from i0 obtain xs where xs: "py_getitem p0 ''inData'' = Inr (JList xs)" "list_all wf_item xs"
    by (auto simp: wf_items_def split: sum.splits json.splits)
  from xs(1) have d0: "is_dict p0" by (rule getitem_is_dict)
  define in_items where "in_items = map (encrypted_item cp sk siv dk dv) (sort_by_index xs)"
  define out_items where "out_items = sort_by_index (field_items p0 ''outData'')"
  define p1 where "p1 = put ''sessionKeyIv'' (JStr (hex_str siv)) p0"
  define p2 where "p2 = put ''inData'' (JList in_items) p1"
  define p3 where "p3 = (case py_getitem p0 ''outData'' of
                           Inr out \<Rightarrow> put ''outData'' (JList out_items) p2 | Inl e \<Rightarrow> p2)"
  define digest where
    "digest = compute_message_hash cp
                (header_hash cp p0 nh @ item_hash cp in_items @ item_hash cp out_items)"
  have d1: "is_dict p1" and d2: "is_dict p2" by (simp_all add: p1_def p2_def is_dict_put d0)
  have d3: "is_dict p3" by (simp add: p3_def is_dict_put d2 split: sum.splits)
  have g1: "py_getitem p1 k = py_getitem p0 k" if "k \<noteq> ''sessionKeyIv''" for k
    using that by (simp add: p1_def getitem_put [OF d0])
  have g2: "py_getitem p2 k = py_getitem p0 k" if "k \<noteq> ''sessionKeyIv''" "k \<noteq> ''inData''" for k
    using that by (simp add: p2_def getitem_put [OF d1] g1)
  have f1: "py_setitem p0 ''sessionKeyIv'' (JStr (hex_str siv)) = Inr p1"
    by (simp add: p1_def setitem_put [OF d0])
  have "wf_items p1 ''inData''" using i0 by (simp add: wf_items_def g1)
  from encrypt_workorder_indata_wf [OF this, of cp sk siv "worker_encryption_key worker" dk dv]
  have f2: "snd (encrypt_workorder_indata cp p1 sk siv (worker_encryption_key worker) dk dv)
              = Inr p2"
    by (simp add: p2_def in_items_def field_items_def g1 xs(1))
  have f3: "\<not> has_surrogate nh"
    unfolding nh_def by (rule literal_no_surrogate)
  have "wf_header p2 = wf_header p0" by (rule wf_header_cong) (auto simp: g2)
  moreover have "header_hash cp p2 nh = header_hash cp p0 nh"
    by (rule header_hash_cong) (auto simp: g2)
  ultimately have f4: "calculate_hash_on_concatenated_string cp p2 nh
                         = Inr (header_hash cp p0 nh)"
    using h0 by (simp add: header_wf)
  have f5: "py_getitem p2 ''inData'' = Inr (JList in_items)"
    by (simp add: p2_def getitem_put [OF d1])
  have "list_all wf_item in_items"
    unfolding in_items_def by (rule encrypted_items_wf [OF wf_item_sorted [OF xs(2)]])
  then have f6: "calculate_datahash cp (JList in_items) = Inr (item_hash cp in_items)"
    by (rule calculate_datahash_wf)
  have "opt_wf_items p2 ''outData''" using o0 by (simp add: opt_wf_items_def g2)
  from outdata_hash_wf [OF this, of cp]
  have f7: "outdata_hash cp p2 = Inr (p3, item_hash cp out_items)"
    by (simp add: p3_def out_items_def field_items_def g2 split: sum.splits)
  have "ascii_text (header_hash cp p0 nh @ item_hash cp in_items @ item_hash cp out_items)"
    by (simp add: ascii_append ascii_header_hash ascii_item_hash)
  then have f8: "\<not> has_surrogate (header_hash cp p0 nh @ item_hash cp in_items
                                     @ item_hash cp out_items)"
    by (rule ascii_no_surrogate)
  have dj: "is_dict input_json" using p0 by (rule getitem_is_dict)
  have result: "signed_request cp pk sk siv esk dk dv input_json =
      put ''params''
        (put ''requesterNonce'' (JStr nh)
           (put ''verifyingKey'' (JStr (GetPublicKey_Serialize cp pk))
              (put ''encryptedSessionKey'' (JStr (hex_str esk))
                 (put ''requesterSignature''
                    (JStr (base64_text cp (SignMessage cp pk digest)))
                    (put ''encryptedRequestHash''
                       (JStr (hex_str (encrypt_data cp digest (Some sk) (Some siv)))) p3)))))
        input_json"
    by (simp add: signed_request_def signed_params_def p0 Let_def nh_def digest_def p3_def
          p2_def p1_def in_items_def out_items_def field_items_def xs(1) split: sum.splits)
  show ?thesis
    unfolding result sign_request_def generate_signature_def Let_def nh_def [symmetric]
    by (simp add: snd_bnd p0 f1 f2 f3 f4 f5 f6 f7 f8 digest_def [symmetric]
          setitem_put is_dict_put d3 dj)
qed

lemma generate_client_signature_None:
  "snd (generate_client_signature cp self input_json_str worker pk sk siv esk dk dv)
     = Inr (self', None)
     \<longleftrightarrow> self' = self
         \<and> (snd (payload_json_check input_json_str) = Inr False
            \<or> snd (payload_json_check input_json_str) = Inr True
               \<and> (HashingAlgorithm (tcs_worker self) \<noteq> hashing_algorithm worker
                  \<or> SigningAlgorithm (tcs_worker self) \<noteq> signing_algorithm worker))"
  unfolding generate_client_signature_def
  by (auto simp: snd_bnd split: sum.splits prod.splits)

lemma generate_client_signature_logs:
  "snd (payload_json_check input_json_str) = Inr False \<Longrightarrow>
     fst (generate_client_signature cp self input_json_str worker pk sk siv esk dk dv)
       = fst (payload_json_check input_json_str) @ [check_failed_record]"
  "snd (payload_json_check input_json_str) = Inr True \<Longrightarrow>
   HashingAlgorithm (tcs_worker self) \<noteq> hashing_algorithm worker \<Longrightarrow>
     fst (generate_client_signature cp self input_json_str worker pk sk siv esk dk dv)
       = fst (payload_json_check input_json_str) @ [hashing_mismatch_record worker]"
  "snd (payload_json_check input_json_str) = Inr True \<Longrightarrow>
   HashingAlgorithm (tcs_worker self) = hashing_algorithm worker \<Longrightarrow>
   SigningAlgorithm (tcs_worker self) \<noteq> signing_algorithm worker \<Longrightarrow>
     fst (generate_client_signature cp self input_json_str worker pk sk siv esk dk dv)
       = fst (payload_json_check input_json_str) @ [signing_mismatch_record worker]"
  unfolding generate_client_signature_def
  by (simp_all add: fst_bnd check_failed_record_def hashing_mismatch_record_def
        signing_mismatch_record_def)

lemma generate_client_signature_wf:
  assumes "snd (payload_json_check (Parses input_json)) = Inr True"
    and "HashingAlgorithm (tcs_worker self) = hashing_algorithm worker"
    and "SigningAlgorithm (tcs_worker self) = signing_algorithm worker"
    and "wf_request input_json"
  shows "snd (generate_client_signature cp self (Parses input_json) worker pk sk siv esk dk dv)
           = Inr (self\<lparr>private_key := Some pk,
                       public_key := Some (GetPublicKey_Serialize cp pk)\<rparr>,
                  Some (signed_request cp pk sk siv esk dk dv input_json))"
  using assms(1-3) sign_request_wf [OF assms(4), where cp = cp and self = self and worker = worker
      and pk = pk and sk = sk and siv = siv and esk = esk and dk = dk and dv = dv]
  unfolding generate_client_signature_def by (simp add: snd_bnd)

lemma abort_records_distinct:
  "check_failed_record \<noteq> hashing_mismatch_record worker"
  "check_failed_record \<noteq> signing_mismatch_record worker"
  "hashing_mismatch_record worker \<noteq> signing_mismatch_record worker'"
  by (simp_all add: check_failed_record_def hashing_mismatch_record_def
        signing_mismatch_record_def)

text \<open>
  Claim C4 as stated fails: \<open>request_with_number_id\<close> passes the check, the algorithms
  of the worker are the configured ones, and \<^verbatim>\<open>generate_client_signature\<close> raises
  \<^verbatim>\<open>AttributeError\<close> at \<^verbatim>\<open>.encode\<close> of the \<^verbatim>\<open>workOrderId\<close>; it returns neither a signed
  request nor \<^verbatim>\<open>None\<close>.
\<close>

theorem checked_request_not_signed:
  "snd (payload_json_check (Parses request_with_number_id)) = Inr True
   \<and> HashingAlgorithm (tcs_worker (new_client :: unit ClientSignature))
       = hashing_algorithm sha_worker
   \<and> SigningAlgorithm (tcs_worker (new_client :: unit ClientSignature))
       = signing_algorithm sha_worker
   \<and> snd (generate_client_signature plain_crypto new_client (Parses request_with_number_id)
            sha_worker () ''sk'' ''si'' ''ek'' None None) = Inl AttributeError"
  by code_simp

text \<open>
  Claim C4, amended. \<^verbatim>\<open>generate_client_signature\<close> returns \<^verbatim>\<open>None\<close> exactly when the check
  returns false, or returns true and the hashing or the signing algorithm of the
  worker differs from the configured one; the instance is then unchanged, no payload
  is returned, and after the records of the check exactly one record is logged, a
  different one for each of the three causes. When the check returns true, both
  algorithms match, the request is well-formed (\<open>wf_request\<close>: the strings the signing
  steps encode hold no surrogate, the items have integer indices), it returns the
  signed request \<open>signed_request\<close> and has assigned the private and the public key
  to the instance.
\<close>

theorem signing_outcomes:
  "(snd (generate_client_signature cp self input_json_str worker pk sk siv esk dk dv)
      = Inr (self', None)
    \<longleftrightarrow> self' = self
        \<and> (snd (payload_json_check input_json_str) = Inr False
           \<or> snd (payload_json_check input_json_str) = Inr True
              \<and> (HashingAlgorithm (tcs_worker self) \<noteq> hashing_algorithm worker
                 \<or> SigningAlgorithm (tcs_worker self) \<noteq> signing_algorithm worker)))
   \<and> (snd (payload_json_check input_json_str) = Inr False \<longrightarrow>
        fst (generate_client_signature cp self input_json_str worker pk sk siv esk dk dv)
          = fst (payload_json_check input_json_str) @ [check_failed_record])
   \<and> (snd (payload_json_check input_json_str) = Inr True
        \<and> HashingAlgorithm (tcs_worker self) \<noteq> hashing_algorithm worker \<longrightarrow>
        fst (generate_client_signature cp self input_json_str worker pk sk siv esk dk dv)
          = fst (payload_json_check input_json_str) @ [hashing_mismatch_record worker])
   \<and> (snd (payload_json_check input_json_str) = Inr True
        \<and> HashingAlgorithm (tcs_worker self) = hashing_algorithm worker
        \<and> SigningAlgorithm (tcs_worker self) \<noteq> signing_algorithm worker \<longrightarrow>
        fst (generate_client_signature cp self input_json_str worker pk sk siv esk dk dv)
          = fst (payload_json_check input_json_str) @ [signing_mismatch_record worker])
   \<and> check_failed_record \<noteq> hashing_mismatch_record worker
   \<and> check_failed_record \<noteq> signing_mismatch_record worker
   \<and> hashing_mismatch_record worker \<noteq> signing_mismatch_record worker
   \<and> (input_json_str = Parses input_json
        \<and> snd (payload_json_check input_json_str) = Inr True
        \<and> HashingAlgorithm (tcs_worker self) = hashing_algorithm worker
        \<and> SigningAlgorithm (tcs_worker self) = signing_algorithm worker
        \<and> wf_request input_json \<longrightarrow>
        snd (generate_client_signature cp self input_json_str worker pk sk siv esk dk dv)
          = Inr (self\<lparr>private_key := Some pk,
                      public_key := Some (GetPublicKey_Serialize cp pk)\<rparr>,
                 Some (signed_request cp pk sk siv esk dk dv input_json)))"
  using generate_client_signature_None
          [where cp = cp and self = self and input_json_str = input_json_str
             and worker = worker and pk = pk and sk = sk and siv = siv and esk = esk
             and dk = dk and dv = dv and self' = self']
    generate_client_signature_logs
          [where cp = cp and self = self and input_json_str = input_json_str
             and worker = worker and pk = pk and sk = sk and siv = siv and esk = esk
             and dk = dk and dv = dv]
    generate_client_signature_wf
          [where cp = cp and self = self and input_json = input_json and worker = worker
             and pk = pk and sk = sk and siv = siv and esk = esk and dk = dk and dv = dv]
    abort_records_distinct(1,2) [where worker = worker]
    abort_records_distinct(3) [where worker = worker and worker' = worker]
  by blast

lemma check_examples:
  "payload_json_check (Parses example_request) = ([], Inr True)"
  "payload_json_check (Parses request_missing_two)
     = ([missing_field_record ''requesterNonce'', missing_field_record ''requesterId''],
        Inr False)"
  by (simp_all add: payload_json_check_def example_request_def request_missing_two_def
        param_pool_def indata_defect_def missing_field_record_def)

lemma example_request_wf: "wf_request example_request"
  by code_simp

lemma example_signed_request:
  "signed_request plain_crypto () ''sk'' ''si'' ''ek'' None None example_request = example_signed"
  by code_simp

theorem signing_outcomes_witness:
  "snd (payload_json_check (Parses example_request)) = Inr True
   \<and> wf_request example_request
   \<and> HashingAlgorithm (tcs_worker (new_client :: unit ClientSignature))
       = hashing_algorithm sha_worker
   \<and> SigningAlgorithm (tcs_worker (new_client :: unit ClientSignature))
       = signing_algorithm sha_worker
   \<and> snd (generate_client_signature plain_crypto new_client (Parses example_request) sha_worker
            () ''sk'' ''si'' ''ek'' None None)
       = Inr (\<lparr>private_key = Some (), public_key = Some ''pub'', tcs_worker = sha_config\<rparr>,
              Some example_signed)
   \<and> snd (payload_json_check (Parses request_missing_two)) = Inr False
   \<and> generate_client_signature plain_crypto new_client (Parses request_missing_two) sha_worker ()
         ''sk'' ''si'' ''ek'' None None
       = ([missing_field_record ''requesterNonce'', missing_field_record ''requesterId'',
           check_failed_record], Inr (new_client, None))
   \<and> HashingAlgorithm (tcs_worker (new_client :: unit ClientSignature))
       \<noteq> hashing_algorithm (sha_worker\<lparr>hashing_algorithm := ''MD5''\<rparr>)
   \<and> generate_client_signature plain_crypto new_client (Parses example_request)
         (sha_worker\<lparr>hashing_algorithm := ''MD5''\<rparr>) () ''sk'' ''si'' ''ek'' None None
       = ([hashing_mismatch_record (sha_worker\<lparr>hashing_algorithm := ''MD5''\<rparr>)],
          Inr (new_client, None))
   \<and> SigningAlgorithm (tcs_worker (new_client :: unit ClientSignature))
       \<noteq> signing_algorithm (sha_worker\<lparr>signing_algorithm := ''RSA''\<rparr>)
   \<and> generate_client_signature plain_crypto new_client (Parses example_request)
         (sha_worker\<lparr>signing_algorithm := ''RSA''\<rparr>) () ''sk'' ''si'' ''ek'' None None
       = ([signing_mismatch_record (sha_worker\<lparr>signing_algorithm := ''RSA''\<rparr>)],
          Inr (new_client, None))"
proof -
  let ?md5 = "sha_worker\<lparr>hashing_algorithm := ''MD5''\<rparr>"
  let ?rsa = "sha_worker\<lparr>signing_algorithm := ''RSA''\<rparr>"
  let ?c = "new_client :: unit ClientSignature"
  have ok: "snd (payload_json_check (Parses example_request)) = Inr True"
    and bad: "snd (payload_json_check (Parses request_missing_two)) = Inr False"
    by (simp_all add: check_examples)
  have h: "HashingAlgorithm (tcs_worker ?c) = hashing_algorithm sha_worker"
    and s: "SigningAlgorithm (tcs_worker ?c) = signing_algorithm sha_worker"
    and h': "HashingAlgorithm (tcs_worker ?c) \<noteq> hashing_algorithm ?md5"
    and hr: "HashingAlgorithm (tcs_worker ?c) = hashing_algorithm ?rsa"
    and s': "SigningAlgorithm (tcs_worker ?c) \<noteq> signing_algorithm ?rsa"
    by (simp_all add: new_client_def sha_config_def sha_worker_def)
  have "snd (generate_client_signature plain_crypto ?c (Parses example_request) sha_worker
            () ''sk'' ''si'' ''ek'' None None)
       = Inr (?c\<lparr>private_key := Some (),
                  public_key := Some (GetPublicKey_Serialize plain_crypto ())\<rparr>,
              Some (signed_request plain_crypto () ''sk'' ''si'' ''ek'' None None example_request))"
    using signing_outcomes
            [where cp = plain_crypto and self = ?c and input_json_str = "Parses example_request"
               and input_json = example_request
               and worker = sha_worker and pk = "()" and sk = "''sk''" and siv = "''si''"
               and esk = "''ek''" and dk = None and dv = None and self' = ?c]
          ok h s example_request_wf
    by blast
  moreover have "GetPublicKey_Serialize plain_crypto () = ''pub''"
    by (simp add: plain_crypto_def)
  ultimately have signed: "snd (generate_client_signature plain_crypto ?c (Parses example_request)
            sha_worker () ''sk'' ''si'' ''ek'' None None)
       = Inr (\<lparr>private_key = Some (), public_key = Some ''pub'', tcs_worker = sha_config\<rparr>,
              Some example_signed)"
    by (simp add: example_signed_request new_client_def)
  have r1: "generate_client_signature plain_crypto ?c (Parses request_missing_two) sha_worker ()
         ''sk'' ''si'' ''ek'' None None
       = ([missing_field_record ''requesterNonce'', missing_field_record ''requesterId'',
           check_failed_record], Inr (?c, None))"
    using signing_outcomes
            [where cp = plain_crypto and self = ?c
               and input_json_str = "Parses request_missing_two"
               and worker = sha_worker and pk = "()" and sk = "''sk''" and siv = "''si''"
               and esk = "''ek''" and dk = None and dv = None and self' = ?c]
          bad
    by (intro prod_eqI) (simp_all add: check_examples)
  have r2: "generate_client_signature plain_crypto ?c (Parses example_request) ?md5 ()
         ''sk'' ''si'' ''ek'' None None
       = ([hashing_mismatch_record ?md5], Inr (?c, None))"
    using signing_outcomes
            [where cp = plain_crypto and self = ?c and input_json_str = "Parses example_request"
               and worker = ?md5 and pk = "()" and sk = "''sk''" and siv = "''si''"
               and esk = "''ek''" and dk = None and dv = None and self' = ?c]
          ok h'
    by (intro prod_eqI) (simp_all add: check_examples)
  have r3: "generate_client_signature plain_crypto ?c (Parses example_request) ?rsa ()
         ''sk'' ''si'' ''ek'' None None
       = ([signing_mismatch_record ?rsa], Inr (?c, None))"
    using signing_outcomes
            [where cp = plain_crypto and self = ?c and input_json_str = "Parses example_request"
               and worker = ?rsa and pk = "()" and sk = "''sk''" and siv = "''si''"
               and esk = "''ek''" and dk = None and dv = None and self' = ?c]
          ok hr s'
    by (intro prod_eqI) (simp_all add: check_examples)
  from ok example_request_wf h s signed bad r1 h' r2 s' r3
  show ?thesis by blast
qed

end
